theory Spec2Isabelle
  imports Complex_Main
begin

section \<open>NetworkIRR: the IRR coordinate system of a network\<close>

text \<open>
  A shallow embedding of the class \<open>NetworkIRR\<close> of \<open>networkIRR.py\<close>.

  Conventions of the embedding.
  \<^item> NumPy arrays are two-dimensional and held as lists of rows of complex numbers; machine
    floating point is idealised as exact real and complex arithmetic.
  \<^item> The arrays an object stores in its fields, and the arrays it hands out, live in an
    explicit store (\<open>heap\<close>, a list; an address is an index into it), so that
    a returned reference and a returned copy are distinguishable.
  \<^item> Sage (automorphism group, conjugacy classes, character table) and
    \<open>numpy.linalg.svd\<close> are external; both are parameters of the methods that call them.
  \<^item> Every method returns its result, or the exception it raises, together with the
    object's state at that moment.
  \<^item> The source runs on Python 3 (its \<open>print\<close> is a function) with a NumPy that has
    \<open>np.float\<close> and \<open>np.complex\<close>: comparing an array with \<open>None\<close> by \<open>==\<close> is
    elementwise there, and \<open>round\<close> rounds halves to the even neighbour.
  \<^item> The class matrices the Oracle supplies have the shape of the adjacency matrix; on
    arrays of one shape NumPy's \<open>+\<close>, \<open>*\<close> and \<open>/\<close> are the entrywise operations
    written here (broadcasting of unequal shapes is not modelled).
\<close>

subsection \<open>Python and NumPy values\<close>

datatype py_error =
    AttributeError
  | IndexError
  | TypeError
  | ValueError
  | ZeroDivisionError
  | Exception
  | SageError
  | LinAlgError

type_synonym ndarray = "complex list list"

type_synonym addr = nat

text \<open>\<open>xs[i]\<close> for \<open>i\<close> drawn from a \<open>range\<close>: never negative, IndexError beyond the end.\<close>

definition nth_chk :: "'a list \<Rightarrow> nat \<Rightarrow> py_error + 'a" where
  "nth_chk xs i = (if i < length xs then Inr (xs ! i) else Inl IndexError)"

text \<open>\<open>xs[j]\<close> for a caller's integer \<open>j\<close>: a negative index counts from the end.\<close>

definition py_getitem :: "'a list \<Rightarrow> int \<Rightarrow> py_error + 'a" where
  "py_getitem xs j =
     (if 0 \<le> j \<and> j < int (length xs) then Inr (xs ! nat j)
      else if j < 0 \<and> - int (length xs) \<le> j then Inr (xs ! nat (int (length xs) + j))
      else Inl IndexError)"

text \<open>\<open>xs[j] = v\<close>, for an index that \<open>xs[j]\<close> has already accepted.\<close>

definition py_setitem :: "'a list \<Rightarrow> int \<Rightarrow> 'a \<Rightarrow> 'a list" where
  "py_setitem xs j v =
     (if 0 \<le> j then xs[nat j := v] else xs[nat (int (length xs) + j) := v])"

text \<open>The position that an accepted index \<open>j\<close> denotes in a list of length \<open>n\<close>.\<close>

definition py_index :: "nat \<Rightarrow> int \<Rightarrow> nat" where
  "py_index n j = nat (if j < 0 then int n + j else j)"

text \<open>Python 3's \<open>round\<close> on a float: to the nearest integer, a half to the even one.\<close>

definition py_round :: "real \<Rightarrow> int" where
  "py_round x =
     (let f = \<lfloor>x\<rfloor>; d = x - of_int f
      in if d < 1 / 2 then f
         else if 1 / 2 < d then f + 1
         else if even f then f else f + 1)"

text \<open>\<open>float(c)\<close> and \<open>int(c)\<close> of a character value: only a real value converts.\<close>

definition py_float :: "complex \<Rightarrow> py_error + real" where
  "py_float c = (if Im c = 0 then Inr (Re c) else Inl TypeError)"

definition py_int :: "complex \<Rightarrow> py_error + int" where
  "py_int c =
     (if Im c = 0 then Inr (if 0 \<le> Re c then \<lfloor>Re c\<rfloor> else \<lceil>Re c\<rceil>) else Inl TypeError)"

definition np_zeros :: "nat \<Rightarrow> nat \<Rightarrow> ndarray" where
  "np_zeros r c = replicate r (replicate c 0)"

definition np_add :: "ndarray \<Rightarrow> ndarray \<Rightarrow> ndarray" where
  "np_add A B = map2 (map2 (+)) A B"

definition np_mul :: "ndarray \<Rightarrow> complex \<Rightarrow> ndarray" where
  "np_mul A c = map (map (\<lambda>x. x * c)) A"

definition np_div :: "ndarray \<Rightarrow> complex \<Rightarrow> ndarray" where
  "np_div A c = map (map (\<lambda>x. x / c)) A"

definition np_size :: "ndarray \<Rightarrow> nat" where
  "np_size A = sum_list (map length A)"

definition np_trace :: "ndarray \<Rightarrow> complex" where
  "np_trace A =
     sum_list (map (\<lambda>i. A ! i ! i)
       [0 ..< min (length A) (case A of [] \<Rightarrow> 0 | r # _ \<Rightarrow> length r)])"

text \<open>An array of \<open>r\<close> rows and \<open>c\<close> columns.\<close>

definition has_shape :: "nat \<Rightarrow> nat \<Rightarrow> ndarray \<Rightarrow> bool" where
  "has_shape r c A \<longleftrightarrow> length A = r \<and> (\<forall>row \<in> set A. length row = c)"

subsection \<open>The external collaborators\<close>

text \<open>
  What Sage returns for a graph: the group's order, its elements as permutation matrices,
  its conjugacy classes (each the list of its elements' permutation matrices, as
  \<open>ConjugacyClass(group, representative).list()\<close> gives them) and its character table.
\<close>

record sage_group =
  sg_order :: int
  sg_list :: "ndarray list"
  sg_conjugacy_classes :: "ndarray list list"
  sg_character_table :: "complex list list"

text \<open>
  \<open>sg.Graph(sg.Matrix(adjmat)).automorphism_group(orbits=True)\<close>, applied to whatever the
  field \<open>_adjmat\<close> holds (an array, or None).
\<close>

type_synonym sage_fn = "ndarray option \<Rightarrow> py_error + (sage_group \<times> nat list list)"

text \<open>\<open>numpy.linalg.svd\<close>: the triple \<open>(U, W, VH)\<close>, or an error.\<close>

type_synonym svd_fn = "ndarray \<Rightarrow> py_error + (ndarray \<times> real list \<times> ndarray)"

subsection \<open>The object\<close>

record NetworkIRR =
  heap :: "ndarray list"
  self_adjmat :: "addr option"
  self_nnodes :: nat
  self_group :: "sage_group option"
  self_orbits :: "nat list list option"
  self_permutation_matrices :: "ndarray list option"
  self_conjugacy_classes :: "ndarray list list option"
  self_conjugacy_classes_matrices :: "ndarray list list option"
  self_character_table :: "complex list list option"
  self_IRR_degeneracies :: "int list option"
  self_projection_operators :: "addr option list option"
  self_transformation_operator :: "addr option"

type_synonym 'a action = "NetworkIRR \<Rightarrow> (py_error + 'a) \<times> NetworkIRR"

text \<open>
  The test \<open>x == None\<close> of an \<open>if\<close>, for a field that holds None or an array: on an
  array the comparison is elementwise, and the truth value of its result is False for at
  most one element and a ValueError for more.
\<close>

definition eq_None_test :: "ndarray list \<Rightarrow> addr option \<Rightarrow> py_error + bool" where
  "eq_None_test h x =
     (case x of
        None \<Rightarrow> Inr True
      | Some a \<Rightarrow> if 1 < np_size (h ! a) then Inl ValueError else Inr False)"

text \<open>A caller writing into an array it holds a reference to.\<close>

definition caller_write :: "addr \<Rightarrow> ndarray \<Rightarrow> NetworkIRR \<Rightarrow> NetworkIRR" where
  "caller_write a v s = s\<lparr>heap := (heap s)[a := v]\<rparr>"

definition adjmat_value :: "NetworkIRR \<Rightarrow> ndarray option" where
  "adjmat_value s = map_option (\<lambda>a. heap s ! a) (self_adjmat s)"

definition reset_data :: "NetworkIRR \<Rightarrow> NetworkIRR" where
  "reset_data s =
     s\<lparr>self_adjmat := None,
       self_nnodes := 0,
       self_group := None,
       self_orbits := None,
       self_permutation_matrices := None,
       self_conjugacy_classes := None,
       self_conjugacy_classes_matrices := None,
       self_character_table := None,
       self_IRR_degeneracies := None,
       self_projection_operators := None,
       self_transformation_operator := None\<rparr>"

text \<open>The argument is the caller's matrix, or None (the constructor's default).\<close>

definition set_adjacency_matrix :: "ndarray option \<Rightarrow> unit action" where
  "set_adjacency_matrix adjmat s =
     (let s1 = reset_data s
      in case adjmat of
           None \<Rightarrow> (Inl AttributeError, s1)
         | Some m \<Rightarrow>
             (Inr (),
              s1\<lparr>heap := heap s1 @ [m],
                 self_adjmat := Some (length (heap s1)),
                 self_nnodes := length m\<rparr>))"

text \<open>The constructor, run in a store \<open>h\<close>.\<close>

definition blank :: "ndarray list \<Rightarrow> NetworkIRR" where
  "blank h =
     \<lparr>heap = h, self_adjmat = None, self_nnodes = 0, self_group = None,
      self_orbits = None, self_permutation_matrices = None,
      self_conjugacy_classes = None, self_conjugacy_classes_matrices = None,
      self_character_table = None, self_IRR_degeneracies = None,
      self_projection_operators = None, self_transformation_operator = None\<rparr>"

definition init :: "ndarray option \<Rightarrow> ndarray list \<Rightarrow> (py_error + unit) \<times> NetworkIRR" where
  "init adjmat h = set_adjacency_matrix adjmat (reset_data (blank h))"

definition get_adjacency_matrix :: "addr action" where
  "get_adjacency_matrix s =
     (case self_adjmat s of
        None \<Rightarrow> (Inl AttributeError, s)
      | Some a \<Rightarrow> (Inr (length (heap s)), s\<lparr>heap := heap s @ [heap s ! a]\<rparr>))"

definition get_automorphism_group :: "sage_fn \<Rightarrow> sage_group action" where
  "get_automorphism_group Sage s =
     (case self_group s of
        Some G \<Rightarrow> (Inr G, s)
      | None \<Rightarrow>
          (case Sage (adjmat_value s) of
             Inl e \<Rightarrow> (Inl e, s)
           | Inr (G, orb) \<Rightarrow> (Inr G, s\<lparr>self_group := Some G, self_orbits := Some orb\<rparr>)))"

definition get_character_table :: "sage_fn \<Rightarrow> (complex list list) action" where
  "get_character_table Sage s =
     (case self_character_table s of
        Some t \<Rightarrow> (Inr t, s)
      | None \<Rightarrow>
          (case get_automorphism_group Sage s of
             (Inl e, s1) \<Rightarrow> (Inl e, s1)
           | (Inr G, s1) \<Rightarrow>
               (Inr (sg_character_table G),
                s1\<lparr>self_character_table := Some (sg_character_table G)\<rparr>)))"

definition get_conjugacy_classes :: "sage_fn \<Rightarrow> (ndarray list list) action" where
  "get_conjugacy_classes Sage s =
     (case self_conjugacy_classes s of
        Some c \<Rightarrow> (Inr c, s)
      | None \<Rightarrow>
          (case (case self_group s of
                   None \<Rightarrow> get_automorphism_group Sage s
                 | Some G \<Rightarrow> (Inr G, s)) of
             (Inl e, s1) \<Rightarrow> (Inl e, s1)
           | (Inr _, s1) \<Rightarrow>
               (case self_group s1 of
                  None \<Rightarrow> (Inl AttributeError, s1)
                | Some G \<Rightarrow>
                    (Inr (sg_conjugacy_classes G),
                     s1\<lparr>self_conjugacy_classes := Some (sg_conjugacy_classes G)\<rparr>))))"

definition get_conjugacy_classes_matrices :: "sage_fn \<Rightarrow> (ndarray list list) action" where
  "get_conjugacy_classes_matrices Sage s =
     (case (case self_conjugacy_classes s of
              None \<Rightarrow> get_conjugacy_classes Sage s
            | Some c \<Rightarrow> (Inr c, s)) of
        (Inl e, s1) \<Rightarrow> (Inl e, s1)
      | (Inr _, s1) \<Rightarrow>
          (case self_conjugacy_classes_matrices s1 of
             Some M \<Rightarrow> (Inr M, s1)
           | None \<Rightarrow>
               (case self_conjugacy_classes s1 of
                  None \<Rightarrow> (Inl TypeError, s1)
                | Some cs \<Rightarrow> (Inr cs, s1\<lparr>self_conjugacy_classes_matrices := Some cs\<rparr>))))"

definition get_numIRRs :: "sage_fn \<Rightarrow> nat action" where
  "get_numIRRs Sage s =
     (case get_character_table Sage s of
        (Inl e, s1) \<Rightarrow> (Inl e, s1)
      | (Inr characters, s1) \<Rightarrow>
          (case nth_chk characters 0 of
             Inl e \<Rightarrow> (Inl e, s1)
           | Inr row0 \<Rightarrow> (Inr (length row0), s1)))"

subsection \<open>Degeneracies\<close>

text \<open>
  One summand of the inner loop of \<open>get_IRR_degeneracies\<close>, its subexpressions evaluated
  from left to right:
  \<^verbatim>\<open>float(len(matricies[j])/group_order) * np.conj(np.complex(characters[i][j])) * np.trace(matricies[j][0])\<close>
\<close>

definition degeneracy_term ::
  "ndarray list list \<Rightarrow> complex list list \<Rightarrow> int \<Rightarrow> nat \<Rightarrow> nat \<Rightarrow> py_error + complex" where
  "degeneracy_term matricies characters group_order i j =
     (case nth_chk matricies j of
        Inl e \<Rightarrow> Inl e
      | Inr cls \<Rightarrow>
          if group_order = 0 then Inl ZeroDivisionError
          else
            (case nth_chk characters i of
               Inl e \<Rightarrow> Inl e
             | Inr row \<Rightarrow>
                 (case nth_chk row j of
                    Inl e \<Rightarrow> Inl e
                  | Inr c \<Rightarrow>
                      (case nth_chk cls 0 of
                         Inl e \<Rightarrow> Inl e
                       | Inr m \<Rightarrow>
                           Inr (complex_of_real (real (length cls) / real_of_int group_order)
                                * cnj c * np_trace m)))))"

text \<open>The inner loop, over the classes \<open>j\<close>, with the running \<open>total\<close>.\<close>

fun degeneracy_total ::
  "ndarray list list \<Rightarrow> complex list list \<Rightarrow> int \<Rightarrow> nat \<Rightarrow> nat list \<Rightarrow> complex
     \<Rightarrow> py_error + complex" where
  "degeneracy_total matricies characters group_order i [] tot = Inr tot"
| "degeneracy_total matricies characters group_order i (j # js) tot =
     (case degeneracy_term matricies characters group_order i j of
        Inl e \<Rightarrow> Inl e
      | Inr t \<Rightarrow> degeneracy_total matricies characters group_order i js (tot + t))"

text \<open>
  The outer loop, over the IRRs \<open>i\<close>. It appends to the field \<open>_IRR_degeneracies\<close> as it
  goes, so an exception leaves the entries appended so far: the loop returns the error,
  if any, and the list as it stands.
\<close>

fun degeneracy_loop ::
  "ndarray list list \<Rightarrow> complex list list \<Rightarrow> int \<Rightarrow> nat \<Rightarrow> nat list \<Rightarrow> int list
     \<Rightarrow> py_error option \<times> int list" where
  "degeneracy_loop matricies characters group_order numIRRs [] degs = (None, degs)"
| "degeneracy_loop matricies characters group_order numIRRs (i # rest) degs =
     (case degeneracy_total matricies characters group_order i [0 ..< numIRRs] 0 of
        Inl e \<Rightarrow> (Some e, degs)
      | Inr tot \<Rightarrow>
          degeneracy_loop matricies characters group_order numIRRs rest
            (degs @ [py_round (Re tot)]))"

definition get_IRR_degeneracies :: "sage_fn \<Rightarrow> (int list) action" where
  "get_IRR_degeneracies Sage s =
     (case self_IRR_degeneracies s of
        Some degs \<Rightarrow> (Inr degs, s)
      | None \<Rightarrow>
          (case get_character_table Sage s of
             (Inl e, s1) \<Rightarrow> (Inl e, s1)
           | (Inr characters, s1) \<Rightarrow>
               (case nth_chk characters 0 of
                  Inl e \<Rightarrow> (Inl e, s1)
                | Inr row0 \<Rightarrow>
                    (case get_automorphism_group Sage s1 of
                       (Inl e, s2) \<Rightarrow> (Inl e, s2)
                     | (Inr G, s2) \<Rightarrow>
                         (case get_conjugacy_classes_matrices Sage
                                 (s2\<lparr>self_IRR_degeneracies := Some []\<rparr>) of
                            (Inl e, s3) \<Rightarrow> (Inl e, s3)
                          | (Inr matricies, s3) \<Rightarrow>
                              (case degeneracy_loop matricies characters (sg_order G)
                                      (length row0) [0 ..< length row0] [] of
                                 (Some e, degs) \<Rightarrow>
                                   (Inl e, s3\<lparr>self_IRR_degeneracies := Some degs\<rparr>)
                               | (None, degs) \<Rightarrow>
                                   (Inr degs, s3\<lparr>self_IRR_degeneracies := Some degs\<rparr>)))))))"

subsection \<open>Projection operators\<close>

text \<open>\<open>for mat in matricies[i]: result = result + mat*complex(characters[i])\<close>\<close>

fun class_sum :: "ndarray \<Rightarrow> ndarray list \<Rightarrow> complex \<Rightarrow> ndarray" where
  "class_sum result [] c = result"
| "class_sum result (mat # mats) c = class_sum (np_add result (np_mul mat c)) mats c"

text \<open>The loop over the classes \<open>i\<close> of row \<open>j\<close> of the character table.\<close>

fun projection_sum ::
  "ndarray list list \<Rightarrow> complex list \<Rightarrow> nat list \<Rightarrow> ndarray \<Rightarrow> py_error + ndarray" where
  "projection_sum matricies characters [] result = Inr result"
| "projection_sum matricies characters (i # rest) result =
     (case nth_chk matricies i of
        Inl e \<Rightarrow> Inl e
      | Inr cls \<Rightarrow>
          (case nth_chk characters i of
             Inl e \<Rightarrow> Inl e
           | Inr c \<Rightarrow> projection_sum matricies characters rest (class_sum result cls c)))"

text \<open>
  The body of \<open>if self._projection_operators[j] == None:\<close>. The new array is stored in
  slot \<open>j\<close>; its address is what the method then returns.
\<close>

definition compute_projection_operator :: "sage_fn \<Rightarrow> int \<Rightarrow> addr action" where
  "compute_projection_operator Sage j s =
     (case get_character_table Sage s of
        (Inl e, s1) \<Rightarrow> (Inl e, s1)
      | (Inr tbl, s1) \<Rightarrow>
      (case py_getitem tbl j of
        Inl e \<Rightarrow> (Inl e, s1)
      | Inr rowj \<Rightarrow>
      (case py_getitem rowj 0 of
        Inl e \<Rightarrow> (Inl e, s1)
      | Inr IRR_dimension \<Rightarrow>
      (case get_automorphism_group Sage s1 of
        (Inl e, s2) \<Rightarrow> (Inl e, s2)
      | (Inr G, s2) \<Rightarrow>
      (case get_character_table Sage s2 of
        (Inl e, s3) \<Rightarrow> (Inl e, s3)
      | (Inr tbl', s3) \<Rightarrow>
      (case py_getitem tbl' j of
        Inl e \<Rightarrow> (Inl e, s3)
      | Inr characters \<Rightarrow>
      (case get_conjugacy_classes_matrices Sage s3 of
        (Inl e, s4) \<Rightarrow> (Inl e, s4)
      | (Inr matricies, s4) \<Rightarrow>
      (case projection_sum matricies characters [0 ..< length characters]
              (np_zeros (self_nnodes s4) (self_nnodes s4)) of
        Inl e \<Rightarrow> (Inl e, s4)
      | Inr result \<Rightarrow>
      (case py_float IRR_dimension of
        Inl e \<Rightarrow> (Inl e, s4)
      | Inr d \<Rightarrow>
      (case self_projection_operators s4 of
        None \<Rightarrow> (Inl TypeError, s4)
      | Some ops \<Rightarrow>
          (Inr (length (heap s4)),
           s4\<lparr>heap := heap s4 @
                  [np_div (np_mul result (complex_of_real d))
                     (complex_of_real (real_of_int (sg_order G)))],
              self_projection_operators :=
                Some (py_setitem ops j (Some (length (heap s4))))\<rparr>)))))))))))"

definition get_projection_operator :: "sage_fn \<Rightarrow> int \<Rightarrow> addr action" where
  "get_projection_operator Sage j s =
     (case get_IRR_degeneracies Sage s of
        (Inl e, s1) \<Rightarrow> (Inl e, s1)
      | (Inr degen, s1) \<Rightarrow>
          (let ops = (case self_projection_operators s1 of
                        None \<Rightarrow> replicate (length degen) None
                      | Some ops \<Rightarrow> ops);
               s2 = s1\<lparr>self_projection_operators := Some ops\<rparr>
           in case py_getitem ops j of
                Inl e \<Rightarrow> (Inl e, s2)
              | Inr slot \<Rightarrow>
                  (case eq_None_test (heap s2) slot of
                     Inl e \<Rightarrow> (Inl e, s2)
                   | Inr True \<Rightarrow> compute_projection_operator Sage j s2
                   | Inr False \<Rightarrow>
                       (case slot of
                          None \<Rightarrow> (Inl TypeError, s2)
                        | Some a \<Rightarrow> (Inr a, s2)))))"

subsection \<open>The transformation operator\<close>

definition epsilon :: real where
  "epsilon = 1 / 10 ^ 12"

text \<open>
  \<open>for i,w in enumerate(W)\<close>: the rows of \<open>VH\<close> whose singular value is within \<open>epsilon\<close>
  of 1 are appended to \<open>result\<close> and counted in \<open>R2\<close>.
\<close>

fun svd_scan ::
  "ndarray \<Rightarrow> nat \<Rightarrow> real list \<Rightarrow> nat \<times> complex list list
     \<Rightarrow> py_error + (nat \<times> complex list list)" where
  "svd_scan VH i [] (R2, result) = Inr (R2, result)"
| "svd_scan VH i (w # ws) (R2, result) =
     (if \<bar>w - 1\<bar> < epsilon
      then (case nth_chk VH i of
              Inl e \<Rightarrow> Inl e
            | Inr row \<Rightarrow> svd_scan VH (Suc i) ws (R2 + 1, result @ [row]))
      else svd_scan VH (Suc i) ws (R2, result))"

text \<open>The loop over the IRRs \<open>j\<close>, with the rows collected so far.\<close>

fun transformation_loop ::
  "sage_fn \<Rightarrow> svd_fn \<Rightarrow> int list \<Rightarrow> nat list \<Rightarrow> complex list list
     \<Rightarrow> (complex list list) action" where
  "transformation_loop Sage svd degens [] result s = (Inr result, s)"
| "transformation_loop Sage svd degens (j # js) result s =
     (case get_character_table Sage s of
        (Inl e, s1) \<Rightarrow> (Inl e, s1)
      | (Inr tbl, s1) \<Rightarrow>
      (case py_getitem tbl (int j) of
        Inl e \<Rightarrow> (Inl e, s1)
      | Inr rowj \<Rightarrow>
      (case py_getitem rowj 0 of
        Inl e \<Rightarrow> (Inl e, s1)
      | Inr IRR_dimension \<Rightarrow>
          if degens ! j \<noteq> 0
          then
            (case get_projection_operator Sage (int j) s1 of
               (Inl e, s2) \<Rightarrow> (Inl e, s2)
             | (Inr a, s2) \<Rightarrow>
             (case svd (heap s2 ! a) of
               Inl e \<Rightarrow> (Inl e, s2)
             | Inr (U, W, VH) \<Rightarrow>
             (case py_int IRR_dimension of
               Inl e \<Rightarrow> (Inl e, s2)
             | Inr d \<Rightarrow>
             (case svd_scan VH 0 W (0, result) of
               Inl e \<Rightarrow> (Inl e, s2)
             | Inr (R2, result') \<Rightarrow>
                 if d * (degens ! j) \<noteq> int R2 then (Inl Exception, s2)
                 else transformation_loop Sage svd degens js result' s2))))
          else transformation_loop Sage svd degens js result s1)))"

text \<open>\<open>return self._transformation_operator.copy()\<close>\<close>

definition return_transformation_copy :: "addr action" where
  "return_transformation_copy s =
     (case self_transformation_operator s of
        None \<Rightarrow> (Inl AttributeError, s)
      | Some a \<Rightarrow> (Inr (length (heap s)), s\<lparr>heap := heap s @ [heap s ! a]\<rparr>))"

definition get_transformation_operator :: "sage_fn \<Rightarrow> svd_fn \<Rightarrow> addr action" where
  "get_transformation_operator Sage svd s =
     (case eq_None_test (heap s) (self_transformation_operator s) of
        Inl e \<Rightarrow> (Inl e, s)
      | Inr False \<Rightarrow> return_transformation_copy s
      | Inr True \<Rightarrow>
          (case get_IRR_degeneracies Sage s of
             (Inl e, s1) \<Rightarrow> (Inl e, s1)
           | (Inr degens, s1) \<Rightarrow>
               (case transformation_loop Sage svd degens [0 ..< length degens] [] s1 of
                  (Inl e, s2) \<Rightarrow> (Inl e, s2)
                | (Inr result, s2) \<Rightarrow>
                    return_transformation_copy
                      (s2\<lparr>heap := heap s2 @ [result],
                          self_transformation_operator := Some (length (heap s2))\<rparr>))))"

subsection \<open>What the specification says, for comparison\<close>

text \<open>
  The invariants the specification states for the Oracle's data, for a network of \<open>n\<close>
  nodes: the character table is square, with one column per conjugacy class; every class
  is non-empty and holds \<open>n\<close>-by-\<open>n\<close> matrices of one trace; the class sizes add up to
  the group order; entry \<open>[i,0]\<close> of the table is a positive integer.
\<close>

definition oracle_invariants :: "nat \<Rightarrow> sage_group \<Rightarrow> bool" where
  "oracle_invariants n G \<longleftrightarrow>
     sg_conjugacy_classes G \<noteq> [] \<and>
     length (sg_character_table G) = length (sg_conjugacy_classes G) \<and>
     (\<forall>row \<in> set (sg_character_table G).
        length row = length (sg_conjugacy_classes G) \<and>
        Im (hd row) = 0 \<and> 0 < Re (hd row) \<and> real_of_int \<lfloor>Re (hd row)\<rfloor> = Re (hd row)) \<and>
     (\<forall>cls \<in> set (sg_conjugacy_classes G).
        cls \<noteq> [] \<and>
        (\<forall>m \<in> set cls.
           length m = n \<and> (\<forall>r \<in> set m. length r = n) \<and> np_trace m = np_trace (hd cls))) \<and>
     int (sum_list (map length (sg_conjugacy_classes G))) = sg_order G"

text \<open>
  The degeneracy of IRR \<open>i\<close> as the specification writes it:
  \<open>round(Re(\<Sum>\<^sub>j (|class\<^sub>j| / |G|) \<sqdot> conj(character[i][j]) \<sqdot> trace(class\<^sub>j[0])))\<close>, the sum over
  the conjugacy classes, \<open>round\<close> being the language's rounding of a float.
\<close>

definition spec_degeneracy :: "sage_group \<Rightarrow> nat \<Rightarrow> int" where
  "spec_degeneracy G i =
     py_round (Re (\<Sum>j < length (sg_conjugacy_classes G).
        complex_of_real (real (length (sg_conjugacy_classes G ! j)) / real_of_int (sg_order G))
        * cnj (sg_character_table G ! i ! j)
        * np_trace (sg_conjugacy_classes G ! j ! 0)))"

definition spec_degeneracies :: "sage_group \<Rightarrow> int list" where
  "spec_degeneracies G = map (spec_degeneracy G) [0 ..< length (sg_character_table G)]"

text \<open>
  Entry \<open>(r, c)\<close> of the projection operator of IRR \<open>i\<close> as the specification writes it:
  \<open>(dimension\<^sub>i / |G|) \<sqdot> \<Sum>\<^sub>j \<Sum>\<^sub>g\<^sub>\<in>\<^sub>c\<^sub>l\<^sub>a\<^sub>s\<^sub>s\<^sub>j character[i][j] \<sqdot> D(g)\<close>.
\<close>

definition spec_projection_entry :: "sage_group \<Rightarrow> nat \<Rightarrow> nat \<Rightarrow> nat \<Rightarrow> complex" where
  "spec_projection_entry G i r c =
     complex_of_real (Re (sg_character_table G ! i ! 0) / real_of_int (sg_order G))
     * (\<Sum>j < length (sg_conjugacy_classes G).
          \<Sum>g \<leftarrow> sg_conjugacy_classes G ! j. sg_character_table G ! i ! j * (g ! r ! c))"

definition is_spec_projection :: "sage_group \<Rightarrow> nat \<Rightarrow> nat \<Rightarrow> ndarray \<Rightarrow> bool" where
  "is_spec_projection G n i P \<longleftrightarrow>
     length P = n \<and>
     (\<forall>r < n. length (P ! r) = n \<and> (\<forall>c < n. P ! r ! c = spec_projection_entry G i r c))"

text \<open>
  The rows of \<open>V*\<close> whose singular value is within \<open>epsilon\<close> of 1, and their concatenation
  over the IRRs of nonzero degeneracy, in the order of the character table; \<open>P j\<close> is the
  projection operator of IRR \<open>j\<close>.
\<close>

definition unit_rows :: "real list \<Rightarrow> ndarray \<Rightarrow> complex list list" where
  "unit_rows W VH = map snd (filter (\<lambda>(w, row). \<bar>w - 1\<bar> < epsilon) (zip W VH))"

definition svd_rows :: "svd_fn \<Rightarrow> ndarray \<Rightarrow> complex list list" where
  "svd_rows svd P = (case svd P of Inl e \<Rightarrow> [] | Inr (U, W, VH) \<Rightarrow> unit_rows W VH)"

definition spec_transformation ::
  "svd_fn \<Rightarrow> int list \<Rightarrow> (nat \<Rightarrow> ndarray) \<Rightarrow> nat list \<Rightarrow> complex list list" where
  "spec_transformation svd degens P js =
     concat (map (\<lambda>j. if degens ! j = 0 then [] else svd_rows svd (P j)) js)"

text \<open>
  The projection operator of IRR \<open>i\<close> on \<open>n\<close> nodes, and the transformation operator,
  as the specification determines them from the Oracle's data alone: the degeneracies
  are those of the formula, the projection operators those of the group sum.
\<close>

definition spec_projection :: "sage_group \<Rightarrow> nat \<Rightarrow> nat \<Rightarrow> ndarray" where
  "spec_projection G n i =
     map (\<lambda>r. map (\<lambda>c. spec_projection_entry G i r c) [0 ..< n]) [0 ..< n]"



subsection \<open>States of the object\<close>

text \<open>
  The Oracle's answer for the object's adjacency matrix is \<open>G\<close>, and every cached Oracle
  field is unset or holds \<open>G\<close>'s data.
\<close>

definition oracle_loaded :: "sage_fn \<Rightarrow> sage_group \<Rightarrow> NetworkIRR \<Rightarrow> bool" where
  "oracle_loaded Sage G s \<longleftrightarrow>
     (self_group s = Some G \<or>
      self_group s = None \<and> map_sum id fst (Sage (adjmat_value s)) = Inr G) \<and>
     self_character_table s \<in> {None, Some (sg_character_table G)} \<and>
     self_conjugacy_classes s \<in> {None, Some (sg_conjugacy_classes G)} \<and>
     self_conjugacy_classes_matrices s \<in> {None, Some (sg_conjugacy_classes G)}"

text \<open>
  Moreover the cached degeneracies, if any, are those of \<open>G\<close>, and the list of projection
  operators, if allocated, has one slot per IRR.
\<close>

definition cache_coherent :: "sage_fn \<Rightarrow> sage_group \<Rightarrow> NetworkIRR \<Rightarrow> bool" where
  "cache_coherent Sage G s \<longleftrightarrow>
     oracle_loaded Sage G s \<and>
     self_IRR_degeneracies s \<in> {None, Some (spec_degeneracies G)} \<and>
     (case self_projection_operators s of
        None \<Rightarrow> True
      | Some ops \<Rightarrow> length ops = length (sg_character_table G))"

text \<open>No projection operator is cached yet under the index \<open>j\<close>.\<close>

definition slot_empty :: "NetworkIRR \<Rightarrow> int \<Rightarrow> bool" where
  "slot_empty s j \<longleftrightarrow>
     (case self_projection_operators s of
        None \<Rightarrow> True
      | Some ops \<Rightarrow> py_getitem ops j = Inr None)"

text \<open>
  The arrays and the derived fields of the object: what the Oracle getters leave alone.
\<close>

definition same_derived :: "NetworkIRR \<Rightarrow> NetworkIRR \<Rightarrow> bool" where
  "same_derived s s' \<longleftrightarrow>
     heap s' = heap s \<and>
     self_adjmat s' = self_adjmat s \<and>
     self_nnodes s' = self_nnodes s \<and>
     self_projection_operators s' = self_projection_operators s \<and>
     self_transformation_operator s' = self_transformation_operator s"

text \<open>The addresses held in the object's fields are addresses of the store.\<close>

definition heap_ok :: "NetworkIRR \<Rightarrow> bool" where
  "heap_ok s \<longleftrightarrow>
     (case self_adjmat s of None \<Rightarrow> True | Some a \<Rightarrow> a < length (heap s)) \<and>
     (case self_projection_operators s of
        None \<Rightarrow> True
      | Some ops \<Rightarrow> list_all (\<lambda>x. case x of None \<Rightarrow> True | Some a \<Rightarrow> a < length (heap s)) ops) \<and>
     (case self_transformation_operator s of None \<Rightarrow> True | Some a \<Rightarrow> a < length (heap s))"

text \<open>
  What is cached in \<open>s\<close> is still cached, unchanged, in \<open>s'\<close>: the store of \<open>s'\<close> begins
  with the store of \<open>s\<close>, the adjacency matrix is the same, and the character table, the
  degeneracies and every projection operator that \<open>s\<close> holds are held by \<open>s'\<close> too.
\<close>

definition slots_kept :: "addr option list \<Rightarrow> addr option list \<Rightarrow> bool" where
  "slots_kept ops ops' \<longleftrightarrow>
     length ops' = length ops \<and>
     list_all (\<lambda>(x, x'). case x of None \<Rightarrow> True | Some a \<Rightarrow> x' = Some a) (zip ops ops')"

definition caches_kept :: "NetworkIRR \<Rightarrow> NetworkIRR \<Rightarrow> bool" where
  "caches_kept s s' \<longleftrightarrow>
     take (length (heap s)) (heap s') = heap s \<and>
     self_adjmat s' = self_adjmat s \<and>
     self_nnodes s' = self_nnodes s \<and>
     (case self_character_table s of
        None \<Rightarrow> True
      | Some t \<Rightarrow> self_character_table s' = Some t) \<and>
     (case self_IRR_degeneracies s of
        None \<Rightarrow> True
      | Some d \<Rightarrow> self_IRR_degeneracies s' = Some d) \<and>
     (case self_projection_operators s of
        None \<Rightarrow> True
      | Some ops \<Rightarrow>
          (case self_projection_operators s' of
             None \<Rightarrow> False
           | Some ops' \<Rightarrow> slots_kept ops ops'))"

text \<open>The projection operator cached for IRR \<open>j\<close>.\<close>

definition cached_projector :: "NetworkIRR \<Rightarrow> nat \<Rightarrow> ndarray" where
  "cached_projector s j =
     (case self_projection_operators s of
        None \<Rightarrow> []
      | Some ops \<Rightarrow> (case ops ! j of None \<Rightarrow> [] | Some a \<Rightarrow> heap s ! a))"

text \<open>Every projection operator cached in \<open>s\<close> is the one of the specification.\<close>

definition projectors_coherent :: "sage_group \<Rightarrow> NetworkIRR \<Rightarrow> bool" where
  "projectors_coherent G s \<longleftrightarrow>
     (case self_projection_operators s of
        None \<Rightarrow> True
      | Some ops \<Rightarrow>
          list_all
            (\<lambda>j. case ops ! j of
                   None \<Rightarrow> True
                 | Some a \<Rightarrow> heap s ! a = spec_projection G (self_nnodes s) j)
            [0 ..< length ops])"

text \<open>Every projection operator cached in \<open>s\<close> is cached in \<open>s'\<close> with the same content.\<close>

definition projectors_intact :: "NetworkIRR \<Rightarrow> NetworkIRR \<Rightarrow> bool" where
  "projectors_intact s s' \<longleftrightarrow>
     (case self_projection_operators s of
        None \<Rightarrow> True
      | Some ops \<Rightarrow>
          list_all (\<lambda>j. ops ! j = None \<or> cached_projector s' j = cached_projector s j)
            [0 ..< length ops])"

text \<open>
  The rank check of IRR \<open>j\<close>, on the cached data: \<open>R1 = int(dimension\<^sub>j) \<sqdot> degeneracy\<^sub>j\<close>
  equals \<open>R2\<close>, the number of singular values of the projection operator within
  \<open>epsilon\<close> of 1.
\<close>

definition rank_consistent :: "svd_fn \<Rightarrow> NetworkIRR \<Rightarrow> int list \<Rightarrow> nat \<Rightarrow> bool" where
  "rank_consistent svd s degens j \<longleftrightarrow>
     (case self_character_table s of
        None \<Rightarrow> False
      | Some tbl \<Rightarrow>
          (case py_int (tbl ! j ! 0) of
             Inl e \<Rightarrow> False
           | Inr d \<Rightarrow> d * (degens ! j) = int (length (svd_rows svd (cached_projector s j)))))"

subsection \<open>Small networks\<close>

text \<open>A single isolated node: the group of order 1.\<close>

definition N1_group :: sage_group where
  "N1_group =
     \<lparr>sg_order = 1, sg_list = [[[1]]], sg_conjugacy_classes = [[[[1]]]],
      sg_character_table = [[1]]\<rparr>"

definition N1_sage :: sage_fn where
  "N1_sage m = Inr (N1_group, [[0]])"

definition N1 :: NetworkIRR where
  "N1 = snd (init (Some [[0]]) [])"

definition N1_svd :: svd_fn where
  "N1_svd P = Inr ([[1]], [1], [[1]])"

text \<open>An SVD routine that finds no singular value near 1.\<close>

definition N1_svd_off :: svd_fn where
  "N1_svd_off P = Inr ([[1]], [1 / 2], [[1]])"

text \<open>The complete graph on 2 nodes: the group of order 2, the identity and the swap.\<close>

definition K2_group :: sage_group where
  "K2_group =
     \<lparr>sg_order = 2,
      sg_list = [[[1, 0], [0, 1]], [[0, 1], [1, 0]]],
      sg_conjugacy_classes = [[[[1, 0], [0, 1]]], [[[0, 1], [1, 0]]]],
      sg_character_table = [[1, 1], [1, - 1]]\<rparr>"

definition K2_sage :: sage_fn where
  "K2_sage m = Inr (K2_group, [[0, 1]])"

definition K2 :: NetworkIRR where
  "K2 = snd (init (Some [[0, 1], [1, 0]]) [])"

text \<open>The singular value decompositions of its two projection operators.\<close>

definition half_sqrt :: complex where
  "half_sqrt = complex_of_real (1 / sqrt 2)"

definition K2_svd :: svd_fn where
  "K2_svd P =
     (if P = [[1 / 2, 1 / 2], [1 / 2, 1 / 2]]
      then Inr ([[half_sqrt, - half_sqrt], [half_sqrt, half_sqrt]], [1, 0],
                [[half_sqrt, half_sqrt], [- half_sqrt, half_sqrt]])
      else Inr ([[half_sqrt, half_sqrt], [- half_sqrt, half_sqrt]], [1, 0],
                [[half_sqrt, - half_sqrt], [half_sqrt, half_sqrt]]))"

text \<open>
  The cyclic group of order 4 turning 4 nodes: four classes of one element, the powers
  of the rotation, and the characters \<open>1, \<i>, -1, -\<i>\<close>.
\<close>

definition C4_group :: sage_group where
  "C4_group =
     \<lparr>sg_order = 4,
      sg_list =
        [[[1, 0, 0, 0], [0, 1, 0, 0], [0, 0, 1, 0], [0, 0, 0, 1]],
         [[0, 1, 0, 0], [0, 0, 1, 0], [0, 0, 0, 1], [1, 0, 0, 0]],
         [[0, 0, 1, 0], [0, 0, 0, 1], [1, 0, 0, 0], [0, 1, 0, 0]],
         [[0, 0, 0, 1], [1, 0, 0, 0], [0, 1, 0, 0], [0, 0, 1, 0]]],
      sg_conjugacy_classes =
        [[[[1, 0, 0, 0], [0, 1, 0, 0], [0, 0, 1, 0], [0, 0, 0, 1]]],
         [[[0, 1, 0, 0], [0, 0, 1, 0], [0, 0, 0, 1], [1, 0, 0, 0]]],
         [[[0, 0, 1, 0], [0, 0, 0, 1], [1, 0, 0, 0], [0, 1, 0, 0]]],
         [[[0, 0, 0, 1], [1, 0, 0, 0], [0, 1, 0, 0], [0, 0, 1, 0]]]],
      sg_character_table =
        [[1, 1, 1, 1], [1, \<i>, - 1, - \<i>], [1, - 1, 1, - 1], [1, - \<i>, - 1, \<i>]]\<rparr>"

definition C4_sage :: sage_fn where
  "C4_sage m = Inr (C4_group, [[0, 1, 2, 3]])"

definition C4 :: NetworkIRR where
  "C4 = snd (init (Some [[0, 1, 0, 0], [0, 0, 1, 0], [0, 0, 0, 1], [1, 0, 0, 0]]) [])"

section \<open>Properties\<close>

subsection \<open>The Oracle getters\<close>

lemma get_automorphism_group_frame:
  "get_automorphism_group Sage s = (r, s') \<Longrightarrow>
     same_derived s s' \<and> self_IRR_degeneracies s' = self_IRR_degeneracies s"
  by (auto simp: get_automorphism_group_def same_derived_def split: option.splits sum.splits)

lemma get_character_table_frame:
  "get_character_table Sage s = (r, s') \<Longrightarrow>
     same_derived s s' \<and> self_IRR_degeneracies s' = self_IRR_degeneracies s"
  by (auto simp: get_character_table_def same_derived_def
      split: option.splits sum.splits prod.splits dest!: get_automorphism_group_frame)

lemma get_conjugacy_classes_frame:
  "get_conjugacy_classes Sage s = (r, s') \<Longrightarrow>
     same_derived s s' \<and> self_IRR_degeneracies s' = self_IRR_degeneracies s"
  by (auto simp: get_conjugacy_classes_def same_derived_def
      split: option.splits sum.splits prod.splits dest!: get_automorphism_group_frame)

lemma get_conjugacy_classes_matrices_frame:
  "get_conjugacy_classes_matrices Sage s = (r, s') \<Longrightarrow>
     same_derived s s' \<and> self_IRR_degeneracies s' = self_IRR_degeneracies s"
  by (auto simp: get_conjugacy_classes_matrices_def same_derived_def
      split: option.splits sum.splits prod.splits dest!: get_conjugacy_classes_frame)

lemma adjmat_value_same: "same_derived s s' \<Longrightarrow> adjmat_value s' = adjmat_value s"
  by (simp add: same_derived_def adjmat_value_def)

lemma get_automorphism_group_loaded:
  assumes "oracle_loaded Sage G s"
  shows "\<exists>s'. get_automorphism_group Sage s = (Inr G, s') \<and> oracle_loaded Sage G s' \<and>
           self_group s' = Some G"
  using assms
  by (cases "Sage (adjmat_value s)")
     (auto simp: get_automorphism_group_def oracle_loaded_def adjmat_value_def split: option.splits)

lemma get_character_table_loaded:
  assumes "oracle_loaded Sage G s"
  shows "\<exists>s'. get_character_table Sage s = (Inr (sg_character_table G), s') \<and>
           oracle_loaded Sage G s' \<and> self_character_table s' = Some (sg_character_table G)"
proof (cases "self_character_table s")
  case None
  obtain s1 where g: "get_automorphism_group Sage s = (Inr G, s1)" "oracle_loaded Sage G s1"
      "self_group s1 = Some G"
    using get_automorphism_group_loaded[OF assms] by blast
  show ?thesis using None g
    by (auto simp: get_character_table_def oracle_loaded_def)
next
  case (Some t)
  then show ?thesis using assms
    by (auto simp: get_character_table_def oracle_loaded_def)
qed

lemma get_conjugacy_classes_loaded:
  assumes "oracle_loaded Sage G s"
  shows "\<exists>s'. get_conjugacy_classes Sage s = (Inr (sg_conjugacy_classes G), s') \<and>
           oracle_loaded Sage G s' \<and> self_conjugacy_classes s' = Some (sg_conjugacy_classes G)"
proof (cases "self_conjugacy_classes s")
  case None
  obtain s1 where g: "get_automorphism_group Sage s = (Inr G, s1)" "oracle_loaded Sage G s1"
     "self_group s1 = Some G"
    using get_automorphism_group_loaded[OF assms] by blast
  show ?thesis
  proof (cases "self_group s")
    case N: None
    show ?thesis using None N g
      by (auto simp: get_conjugacy_classes_def oracle_loaded_def adjmat_value_def split: option.splits)
  next
    case (Some G')
    then show ?thesis using None assms
      by (auto simp: get_conjugacy_classes_def oracle_loaded_def adjmat_value_def split: option.splits)
  qed
next
  case (Some t)
  then show ?thesis using assms
    by (auto simp: get_conjugacy_classes_def oracle_loaded_def)
qed

lemma get_conjugacy_classes_matrices_loaded:
  assumes "oracle_loaded Sage G s"
  shows "\<exists>s'. get_conjugacy_classes_matrices Sage s = (Inr (sg_conjugacy_classes G), s') \<and>
           oracle_loaded Sage G s'"
proof -
  obtain s1 where g: "get_conjugacy_classes Sage s = (Inr (sg_conjugacy_classes G), s1)"
     "oracle_loaded Sage G s1" "self_conjugacy_classes s1 = Some (sg_conjugacy_classes G)"
    using get_conjugacy_classes_loaded[OF assms] by blast
  show ?thesis
  proof (cases "self_conjugacy_classes s")
    case None
    then show ?thesis using g
      by (auto simp: get_conjugacy_classes_matrices_def oracle_loaded_def adjmat_value_def split: option.splits)
  next
    case (Some a)
    then show ?thesis using assms
      by (auto simp: get_conjugacy_classes_matrices_def oracle_loaded_def adjmat_value_def split: option.splits)
  qed
qed

subsection \<open>Degeneracies\<close>

lemma oracle_loaded_same:
  "oracle_loaded Sage G s \<Longrightarrow> same_derived s s' \<Longrightarrow> self_group s' = self_group s \<Longrightarrow>
   self_character_table s' = self_character_table s \<Longrightarrow>
   self_conjugacy_classes s' = self_conjugacy_classes s \<Longrightarrow>
   self_conjugacy_classes_matrices s' = self_conjugacy_classes_matrices s \<Longrightarrow>
   oracle_loaded Sage G s'"
  by (simp add: oracle_loaded_def adjmat_value_same)

text \<open>The summand of the specification's formula.\<close>

lemma degeneracy_term_value:
  assumes "j < length M" "M ! j \<noteq> []" "go \<noteq> 0" "i < length X" "j < length (X ! i)"
  shows "degeneracy_term M X go i j =
           Inr (complex_of_real (real (length (M ! j)) / real_of_int go)
                * cnj (X ! i ! j) * np_trace (M ! j ! 0))"
  using assms by (simp add: degeneracy_term_def nth_chk_def)

lemma degeneracy_total_sum:
  assumes "\<forall>j \<in> set js. j < length M \<and> M ! j \<noteq> [] \<and> j < length (X ! i)"
    and "go \<noteq> 0" and "i < length X"
  shows "degeneracy_total M X go i js tot =
           Inr (tot + (\<Sum>j \<leftarrow> js. complex_of_real (real (length (M ! j)) / real_of_int go)
                * cnj (X ! i ! j) * np_trace (M ! j ! 0)))"
  using assms
proof (induction js arbitrary: tot)
  case Nil
  then show ?case by simp
next
  case (Cons j js)
  then show ?case by (simp add: degeneracy_term_value add.assoc)
qed

lemma oracle_invariants_order: "oracle_invariants n G \<Longrightarrow> sg_order G \<noteq> 0"
proof -
  assume a: "oracle_invariants n G"
  then obtain c cs where c: "sg_conjugacy_classes G = c # cs" "c \<noteq> []"
    by (cases "sg_conjugacy_classes G") (auto simp: oracle_invariants_def)
  then have "0 < length c" by simp
  then have "0 < sum_list (map length (sg_conjugacy_classes G))" using c by simp
  then show ?thesis using a by (auto simp: oracle_invariants_def)
qed

lemma degeneracy_total_spec:
  assumes "oracle_invariants n G" "i < length (sg_character_table G)"
  shows "degeneracy_total (sg_conjugacy_classes G) (sg_character_table G) (sg_order G) i
           [0 ..< length (sg_conjugacy_classes G)] 0 =
         Inr (\<Sum>j < length (sg_conjugacy_classes G).
            complex_of_real (real (length (sg_conjugacy_classes G ! j)) / real_of_int (sg_order G))
            * cnj (sg_character_table G ! i ! j)
            * np_trace (sg_conjugacy_classes G ! j ! 0))"
proof -
  have "\<forall>j \<in> set [0 ..< length (sg_conjugacy_classes G)].
          j < length (sg_conjugacy_classes G) \<and> sg_conjugacy_classes G ! j \<noteq> [] \<and>
          j < length (sg_character_table G ! i)"
    using assms by (auto simp: oracle_invariants_def)
  then show ?thesis
    using oracle_invariants_order[OF assms(1)] assms(2)
    by (simp add: degeneracy_total_sum interv_sum_list_conv_sum_set_nat atLeast0LessThan)
qed

lemma degeneracy_loop_spec:
  assumes "oracle_invariants n G" "\<forall>i \<in> set is. i < length (sg_character_table G)"
  shows "degeneracy_loop (sg_conjugacy_classes G) (sg_character_table G) (sg_order G)
           (length (sg_conjugacy_classes G)) is degs =
         (None, degs @ map (spec_degeneracy G) is)"
  using assms(2)
proof (induction "is" arbitrary: degs)
  case Nil
  then show ?case by simp
next
  case (Cons i rest)
  then show ?case
    by (simp add: degeneracy_total_spec[OF assms(1)] spec_degeneracy_def)
qed

lemma oracle_invariants_row0:
  assumes "oracle_invariants n G"
  shows "nth_chk (sg_character_table G) 0 = Inr (sg_character_table G ! 0)"
    and "length (sg_character_table G ! 0) = length (sg_conjugacy_classes G)"
  using assms by (auto simp: oracle_invariants_def nth_chk_def)

lemma get_IRR_degeneracies_frame:
  "get_IRR_degeneracies Sage s = (r, s') \<Longrightarrow> same_derived s s'"
  apply (simp add: get_IRR_degeneracies_def split: option.splits prod.splits sum.splits)
  apply (auto simp: same_derived_def dest!: get_automorphism_group_frame get_character_table_frame
      get_conjugacy_classes_matrices_frame)
  done

lemma get_IRR_degeneracies_computed:
  assumes L: "oracle_loaded Sage G s" and I: "oracle_invariants n G"
    and N: "self_IRR_degeneracies s = None"
  shows "\<exists>s'. get_IRR_degeneracies Sage s = (Inr (spec_degeneracies G), s') \<and>
           oracle_loaded Sage G s' \<and> self_IRR_degeneracies s' = Some (spec_degeneracies G)"
proof -
  obtain s1 where 1: "get_character_table Sage s = (Inr (sg_character_table G), s1)"
      "oracle_loaded Sage G s1"
    using get_character_table_loaded[OF L] by blast
  obtain s2 where 2: "get_automorphism_group Sage s1 = (Inr G, s2)" "oracle_loaded Sage G s2"
    using get_automorphism_group_loaded[OF 1(2)] by blast
  let ?s2 = "s2\<lparr>self_IRR_degeneracies := Some []\<rparr>"
  have "oracle_loaded Sage G ?s2"
    using 2(2) by (simp add: oracle_loaded_def adjmat_value_def)
  then obtain s3 where 3:
      "get_conjugacy_classes_matrices Sage ?s2 = (Inr (sg_conjugacy_classes G), s3)"
      "oracle_loaded Sage G s3"
    using get_conjugacy_classes_matrices_loaded by blast
  have k: "length (sg_character_table G) = length (sg_conjugacy_classes G)"
    using I by (simp add: oracle_invariants_def)
  have loop: "degeneracy_loop (sg_conjugacy_classes G) (sg_character_table G) (sg_order G)
           (length (sg_conjugacy_classes G)) [0 ..< length (sg_conjugacy_classes G)] [] =
         (None, spec_degeneracies G)"
    using degeneracy_loop_spec[OF I, of "[0 ..< length (sg_conjugacy_classes G)]" "[]"] k
    by (simp add: spec_degeneracies_def)
  have "get_IRR_degeneracies Sage s =
          (Inr (spec_degeneracies G), s3\<lparr>self_IRR_degeneracies := Some (spec_degeneracies G)\<rparr>)"
    using N 1 2 3 loop oracle_invariants_row0[OF I]
    by (simp add: get_IRR_degeneracies_def)
  moreover have "oracle_loaded Sage G (s3\<lparr>self_IRR_degeneracies := Some (spec_degeneracies G)\<rparr>)"
    using 3(2) by (simp add: oracle_loaded_def adjmat_value_def)
  ultimately show ?thesis by simp
qed

lemma get_IRR_degeneracies_coherent:
  assumes C: "cache_coherent Sage G s" and I: "oracle_invariants n G"
  shows "\<exists>s'. get_IRR_degeneracies Sage s = (Inr (spec_degeneracies G), s') \<and>
           cache_coherent Sage G s' \<and> same_derived s s' \<and>
           self_IRR_degeneracies s' = Some (spec_degeneracies G)"
proof (cases "self_IRR_degeneracies s")
  case None
  from C have L: "oracle_loaded Sage G s" by (simp add: cache_coherent_def)
  obtain s' where s': "get_IRR_degeneracies Sage s = (Inr (spec_degeneracies G), s')"
      "oracle_loaded Sage G s'" "self_IRR_degeneracies s' = Some (spec_degeneracies G)"
    using get_IRR_degeneracies_computed[OF L I None] by blast
  have f: "same_derived s s'" using get_IRR_degeneracies_frame[OF s'(1)] .
  have "cache_coherent Sage G s'"
    using C s' f by (simp add: cache_coherent_def same_derived_def)
  then show ?thesis using s' f by blast
next
  case (Some d)
  then have "d = spec_degeneracies G" using C by (simp add: cache_coherent_def)
  then show ?thesis using Some C
    by (simp add: get_IRR_degeneracies_def same_derived_def)
qed

text \<open>
  C1. For Oracle data that satisfies the stated invariants, \<open>get_IRR_degeneracies\<close>
  returns one integer per IRR, in the row order of the character table: entry \<open>i\<close> is
  \<open>round(Re(\<Sum>\<^sub>j (|class\<^sub>j| / |G|) \<sqdot> conj(character[i][j]) \<sqdot> trace(class\<^sub>j[0])))\<close>, summed over
  the conjugacy classes.
\<close>

theorem get_IRR_degeneracies_formula:
  assumes "cache_coherent Sage G s" and "oracle_invariants (self_nnodes s) G"
  shows "fst (get_IRR_degeneracies Sage s) =
           Inr (map (spec_degeneracy G) [0 ..< length (sg_character_table G)])"
  using get_IRR_degeneracies_coherent[OF assms] by (auto simp: spec_degeneracies_def)

subsection \<open>Evaluation on the small networks\<close>

lemmas network_defs =
  N1_def N1_sage_def N1_group_def N1_svd_def N1_svd_off_def
  K2_def K2_sage_def K2_group_def K2_svd_def
  C4_def C4_sage_def C4_group_def

lemmas model_defs =
  init_def blank_def reset_data_def set_adjacency_matrix_def get_adjacency_matrix_def
  adjmat_value_def caller_write_def nth_chk_def py_getitem_def py_setitem_def py_round_def
  py_float_def py_int_def np_zeros_def np_add_def np_mul_def np_div_def np_size_def
  np_trace_def eq_None_test_def get_automorphism_group_def get_character_table_def
  get_conjugacy_classes_def get_conjugacy_classes_matrices_def degeneracy_term_def
  get_IRR_degeneracies_def compute_projection_operator_def get_projection_operator_def
  epsilon_def return_transformation_copy_def get_transformation_operator_def upt_rec

lemma K2_coherent: "cache_coherent K2_sage K2_group K2"
  by (simp add: cache_coherent_def oracle_loaded_def network_defs model_defs)

lemma K2_invariants: "oracle_invariants (self_nnodes K2) K2_group"
  by (simp add: oracle_invariants_def network_defs model_defs)

text \<open>
  On the complete graph on 2 nodes both IRRs have degeneracy 1.
\<close>

theorem get_IRR_degeneracies_formula_witness:
  "cache_coherent K2_sage K2_group K2 \<and> oracle_invariants (self_nnodes K2) K2_group \<and>
   fst (get_IRR_degeneracies K2_sage K2) = Inr [spec_degeneracy K2_group 0, spec_degeneracy K2_group 1] \<and>
   spec_degeneracy K2_group 0 = 1 \<and> spec_degeneracy K2_group 1 = 1"
proof -
  have v: "spec_degeneracy K2_group 0 = 1" "spec_degeneracy K2_group 1 = 1"
    by (simp_all add: spec_degeneracy_def K2_group_def lessThan_Suc eval_nat_numeral np_trace_def py_round_def upt_rec)
  show ?thesis
    using get_IRR_degeneracies_formula[OF K2_coherent K2_invariants] K2_coherent K2_invariants v
    by (simp add: K2_group_def upt_rec)
qed

subsection \<open>Setting the adjacency matrix\<close>

text \<open>
  C8, as the code has it. \<open>_set_adjacency_matrix\<close> validates nothing: whatever matrix
  it is given, square or not, empty or not, it succeeds, stores a copy of the matrix and
  the number of its rows, and clears every cached field.
\<close>

theorem set_adjacency_matrix_any:
  "fst (set_adjacency_matrix (Some m) s) = Inr () \<and>
   adjmat_value (snd (set_adjacency_matrix (Some m) s)) = Some m \<and>
   self_nnodes (snd (set_adjacency_matrix (Some m) s)) = length m \<and>
   self_group (snd (set_adjacency_matrix (Some m) s)) = None \<and>
   self_orbits (snd (set_adjacency_matrix (Some m) s)) = None \<and>
   self_permutation_matrices (snd (set_adjacency_matrix (Some m) s)) = None \<and>
   self_conjugacy_classes (snd (set_adjacency_matrix (Some m) s)) = None \<and>
   self_conjugacy_classes_matrices (snd (set_adjacency_matrix (Some m) s)) = None \<and>
   self_character_table (snd (set_adjacency_matrix (Some m) s)) = None \<and>
   self_IRR_degeneracies (snd (set_adjacency_matrix (Some m) s)) = None \<and>
   self_projection_operators (snd (set_adjacency_matrix (Some m) s)) = None \<and>
   self_transformation_operator (snd (set_adjacency_matrix (Some m) s)) = None"
  by (simp add: set_adjacency_matrix_def reset_data_def adjmat_value_def)

text \<open>
  C8 as the specification states it fails on the 1-by-2 matrix \<open>[[0, 1]]\<close> and on the
  empty matrix: both are accepted, and the object that held the complete graph on 2 nodes
  now holds them.
\<close>

theorem set_adjacency_matrix_nonsquare_accepted:
  "fst (set_adjacency_matrix (Some [[0, 1]]) K2) = Inr () \<and>
   adjmat_value K2 = Some [[0, 1], [1, 0]] \<and>
   adjmat_value (snd (set_adjacency_matrix (Some [[0, 1]]) K2)) = Some [[0, 1]] \<and>
   fst (set_adjacency_matrix (Some []) K2) = Inr () \<and>
   adjmat_value (snd (set_adjacency_matrix (Some []) K2)) = Some []"
  by (simp add: network_defs model_defs)

subsection \<open>Calling twice\<close>

text \<open>
  C6 on the complete graph on 2 nodes. The first call of \<open>get_projection_operator(0)\<close>
  and of \<open>get_transformation_operator()\<close> succeeds; the second call of each, on the state
  the first one left, raises ValueError: the cache test \<open>== None\<close> meets a cached array
  of more than one element.
\<close>

theorem second_call_raises:
  "fst (get_projection_operator K2_sage 0 K2) = Inr 1 \<and>
   fst (get_projection_operator K2_sage 0 (snd (get_projection_operator K2_sage 0 K2)))
     = Inl ValueError \<and>
   fst (get_transformation_operator K2_sage K2_svd K2) = Inr 4 \<and>
   fst (get_transformation_operator K2_sage K2_svd
          (snd (get_transformation_operator K2_sage K2_svd K2)))
     = Inl ValueError"
  by (simp add: network_defs model_defs)

subsection \<open>References and copies\<close>

text \<open>
  C9 on the single-node network. \<open>get_projection_operator(0)\<close> returns the address held
  in slot 0 of the cache, not a copy: after the caller overwrites the array it was given,
  the cached projection operator is the caller's \<open>[[5]]\<close>, and the next call returns it.
  \<open>get_adjacency_matrix\<close> on the same object returns a new address.
\<close>

theorem get_projection_operator_returns_reference:
  "fst (get_projection_operator N1_sage 0 N1) = Inr 1 \<and>
   self_projection_operators (snd (get_projection_operator N1_sage 0 N1)) = Some [Some 1] \<and>
   heap (snd (get_projection_operator N1_sage 0 N1)) ! 1 = [[1]] \<and>
   fst (get_projection_operator N1_sage 0
          (caller_write 1 [[5]] (snd (get_projection_operator N1_sage 0 N1)))) = Inr 1 \<and>
   heap (snd (get_projection_operator N1_sage 0
          (caller_write 1 [[5]] (snd (get_projection_operator N1_sage 0 N1))))) ! 1 = [[5]] \<and>
   self_adjmat N1 = Some 0 \<and> fst (get_adjacency_matrix N1) = Inr 1"
  by (simp add: network_defs model_defs)

subsection \<open>Indices out of range\<close>

text \<open>
  C5 fails on the complete graph on 2 nodes, which has 2 IRRs. The index \<open>-1\<close> is outside
  \<open>[0, 2)\<close> and is served. The index \<open>2\<close> raises IndexError, but only after the
  degeneracies have been computed and cached and the list of projection operators has
  been allocated.
\<close>

theorem out_of_range_index_served_or_state_changed:
  "fst (get_projection_operator K2_sage (- 1) K2) = Inr 1 \<and>
   fst (get_projection_operator K2_sage 2 K2) = Inl IndexError \<and>
   self_IRR_degeneracies K2 = None \<and>
   self_IRR_degeneracies (snd (get_projection_operator K2_sage 2 K2)) = Some [1, 1] \<and>
   self_projection_operators K2 = None \<and>
   self_projection_operators (snd (get_projection_operator K2_sage 2 K2)) = Some [None, None]"
  by (simp add: network_defs model_defs)

subsection \<open>Complex projection operators\<close>

text \<open>
  C7 fails on the cyclic group of order 4: the projection operator of IRR 1 is returned
  with its imaginary parts, entry \<open>(0, 1)\<close> being \<open>\<i> / 4\<close>.
\<close>

theorem projection_operator_not_real:
  "fst (get_projection_operator C4_sage 1 C4) = Inr 1 \<and>
   heap (snd (get_projection_operator C4_sage 1 C4)) ! 1 ! 0 ! 1 = \<i> / 4 \<and>
   Im (heap (snd (get_projection_operator C4_sage 1 C4)) ! 1 ! 0 ! 1) \<noteq> 0"
  by (simp add: network_defs model_defs)

subsection \<open>Projection operators\<close>

lemma same_derived_refl: "same_derived s s"
  by (simp add: same_derived_def)

lemma same_derived_trans: "same_derived s s' \<Longrightarrow> same_derived s' s'' \<Longrightarrow> same_derived s s''"
  by (simp add: same_derived_def)

lemma cache_coherent_step:
  assumes "cache_coherent Sage G s" "oracle_loaded Sage G s'" "same_derived s s'"
    "self_IRR_degeneracies s' = self_IRR_degeneracies s"
  shows "cache_coherent Sage G s'"
  using assms by (simp add: cache_coherent_def same_derived_def)

lemma get_character_table_coherent:
  assumes "cache_coherent Sage G s"
  shows "\<exists>s'. get_character_table Sage s = (Inr (sg_character_table G), s') \<and>
           cache_coherent Sage G s' \<and> same_derived s s'"
proof -
  from assms have "oracle_loaded Sage G s" by (simp add: cache_coherent_def)
  then obtain s' where s': "get_character_table Sage s = (Inr (sg_character_table G), s')"
      "oracle_loaded Sage G s'"
    using get_character_table_loaded by blast
  with get_character_table_frame[OF s'(1)] cache_coherent_step[OF assms s'(2)]
  show ?thesis by blast
qed

lemma get_automorphism_group_coherent:
  assumes "cache_coherent Sage G s"
  shows "\<exists>s'. get_automorphism_group Sage s = (Inr G, s') \<and>
           cache_coherent Sage G s' \<and> same_derived s s' \<and> self_group s' = Some G"
proof -
  from assms have "oracle_loaded Sage G s" by (simp add: cache_coherent_def)
  then obtain s' where s': "get_automorphism_group Sage s = (Inr G, s')"
      "oracle_loaded Sage G s'" "self_group s' = Some G"
    using get_automorphism_group_loaded by blast
  with get_automorphism_group_frame[OF s'(1)] cache_coherent_step[OF assms s'(2)]
  show ?thesis by blast
qed

lemma get_conjugacy_classes_matrices_coherent:
  assumes "cache_coherent Sage G s"
  shows "\<exists>s'. get_conjugacy_classes_matrices Sage s = (Inr (sg_conjugacy_classes G), s') \<and>
           cache_coherent Sage G s' \<and> same_derived s s'"
proof -
  from assms have "oracle_loaded Sage G s" by (simp add: cache_coherent_def)
  then obtain s' where s': "get_conjugacy_classes_matrices Sage s = (Inr (sg_conjugacy_classes G), s')"
      "oracle_loaded Sage G s'"
    using get_conjugacy_classes_matrices_loaded by blast
  with get_conjugacy_classes_matrices_frame[OF s'(1)] cache_coherent_step[OF assms s'(2)]
  show ?thesis by blast
qed

text \<open>Once the group is cached, the Oracle getters keep it.\<close>

lemma get_character_table_group:
  "get_character_table Sage s = (r, s') \<Longrightarrow> self_group s = Some G \<Longrightarrow> self_group s' = Some G"
  by (auto simp: get_character_table_def get_automorphism_group_def
      split: option.splits sum.splits prod.splits)

lemma get_conjugacy_classes_matrices_group:
  "get_conjugacy_classes_matrices Sage s = (r, s') \<Longrightarrow> self_group s = Some G \<Longrightarrow>
     self_group s' = Some G"
  by (auto simp: get_conjugacy_classes_matrices_def get_conjugacy_classes_def
      get_automorphism_group_def split: option.splits sum.splits prod.splits)

text \<open>Indexing.\<close>

lemma py_getitem_index:
  "- int (length xs) \<le> j \<Longrightarrow> j < int (length xs) \<Longrightarrow>
     py_getitem xs j = Inr (xs ! py_index (length xs) j) \<and> py_index (length xs) j < length xs"
  by (auto simp: py_getitem_def py_index_def)

lemma py_getitem_outside:
  "j < - int (length xs) \<or> int (length xs) \<le> j \<Longrightarrow> py_getitem xs j = Inl IndexError"
  by (auto simp: py_getitem_def)

lemma py_setitem_index:
  "- int (length xs) \<le> j \<Longrightarrow> j < int (length xs) \<Longrightarrow>
     py_setitem xs j v = xs[py_index (length xs) j := v]"
  by (auto simp: py_setitem_def py_index_def)

text \<open>Entrywise arithmetic on arrays of one shape.\<close>

lemma has_shape_nth: "has_shape r c A \<Longrightarrow> i < r \<Longrightarrow> length (A ! i) = c"
  by (auto simp: has_shape_def)

lemma np_zeros_shape: "has_shape n n (np_zeros n n)"
  by (simp add: has_shape_def np_zeros_def)

lemma np_zeros_entry: "r < n \<Longrightarrow> c < n \<Longrightarrow> np_zeros n n ! r ! c = 0"
  by (simp add: np_zeros_def)

lemma np_mul_shape: "has_shape r c A \<Longrightarrow> has_shape r c (np_mul A x)"
  by (auto simp: has_shape_def np_mul_def)

lemma np_mul_entry:
  "has_shape n m A \<Longrightarrow> r < n \<Longrightarrow> c < m \<Longrightarrow> np_mul A x ! r ! c = A ! r ! c * x"
  by (auto simp: has_shape_def np_mul_def)

lemma np_div_shape: "has_shape r c A \<Longrightarrow> has_shape r c (np_div A x)"
  by (auto simp: has_shape_def np_div_def)

lemma np_div_entry:
  "has_shape n m A \<Longrightarrow> r < n \<Longrightarrow> c < m \<Longrightarrow> np_div A x ! r ! c = A ! r ! c / x"
  by (auto simp: has_shape_def np_div_def)

lemma np_add_shape:
  assumes "has_shape r c A" "has_shape r c B"
  shows "has_shape r c (np_add A B)"
proof -
  have "length row = c" if "row \<in> set (np_add A B)" for row
  proof -
    from that obtain a b where "(a, b) \<in> set (zip A B)" "row = map2 (+) a b"
      by (auto simp: np_add_def)
    then have "a \<in> set A" "b \<in> set B" "row = map2 (+) a b"
      by (auto dest: set_zip_leftD set_zip_rightD)
    then show ?thesis using assms by (simp add: has_shape_def)
  qed
  then show ?thesis using assms by (simp add: has_shape_def np_add_def)
qed
     
lemma np_add_entry:
  "has_shape n m A \<Longrightarrow> has_shape n m B \<Longrightarrow> r < n \<Longrightarrow> c < m \<Longrightarrow>
     np_add A B ! r ! c = A ! r ! c + B ! r ! c"
  by (auto simp: has_shape_def np_add_def)

lemma class_sum_entries:
  assumes "has_shape n n R" "\<forall>g \<in> set mats. has_shape n n g"
  shows "has_shape n n (class_sum R mats x) \<and>
         (\<forall>r < n. \<forall>c < n. class_sum R mats x ! r ! c = R ! r ! c + (\<Sum>g \<leftarrow> mats. x * (g ! r ! c)))"
  using assms
proof (induction mats arbitrary: R)
  case Nil
  then show ?case by simp
next
  case (Cons g mats)
  have g: "has_shape n n g" using Cons.prems by simp
  have 1: "has_shape n n (np_add R (np_mul g x))"
    using Cons.prems(1) g by (simp add: np_add_shape np_mul_shape)
  have 2: "\<forall>r < n. \<forall>c < n. np_add R (np_mul g x) ! r ! c = R ! r ! c + x * (g ! r ! c)"
    using Cons.prems(1) g by (simp add: np_add_entry np_mul_entry np_mul_shape mult.commute)
  from Cons.IH[OF 1] Cons.prems(2) 2 show ?case by (simp add: add.assoc)
qed

lemma projection_sum_entries:
  assumes "has_shape n n R"
    and "\<forall>i \<in> set is. i < length M \<and> i < length X \<and> (\<forall>g \<in> set (M ! i). has_shape n n g)"
  shows "\<exists>R'. projection_sum M X is R = Inr R' \<and> has_shape n n R' \<and>
           (\<forall>r < n. \<forall>c < n. R' ! r ! c =
              R ! r ! c + (\<Sum>i \<leftarrow> is. \<Sum>g \<leftarrow> M ! i. X ! i * (g ! r ! c)))"
  using assms
proof (induction "is" arbitrary: R)
  case Nil
  then show ?case by simp
next
  case (Cons i rest)
  have i: "i < length M" "i < length X" "\<forall>g \<in> set (M ! i). has_shape n n g"
    using Cons.prems(2) by simp_all
  from class_sum_entries[OF Cons.prems(1) i(3), of "X ! i"]
  have 1: "has_shape n n (class_sum R (M ! i) (X ! i))"
    and 2: "\<forall>r < n. \<forall>c < n. class_sum R (M ! i) (X ! i) ! r ! c =
               R ! r ! c + (\<Sum>g \<leftarrow> M ! i. X ! i * (g ! r ! c))"
    by simp_all
  from Cons.IH[OF 1] Cons.prems(2)
  obtain R' where R': "projection_sum M X rest (class_sum R (M ! i) (X ! i)) = Inr R'"
      "has_shape n n R'"
      "\<forall>r < n. \<forall>c < n. R' ! r ! c = class_sum R (M ! i) (X ! i) ! r ! c
           + (\<Sum>i \<leftarrow> rest. \<Sum>g \<leftarrow> M ! i. X ! i * (g ! r ! c))"
    by auto
  show ?case using R' 2 i by (simp add: nth_chk_def add.assoc)
qed

lemma oracle_invariants_table:
  assumes "oracle_invariants n G" "i < length (sg_character_table G)"
  shows "length (sg_character_table G ! i) = length (sg_conjugacy_classes G)"
    and "0 < length (sg_conjugacy_classes G)"
    and "Im (sg_character_table G ! i ! 0) = 0"
    and "length (sg_character_table G) = length (sg_conjugacy_classes G)"
proof -
  have r: "sg_character_table G ! i \<in> set (sg_character_table G)" using assms(2) by simp
  show 1: "length (sg_character_table G ! i) = length (sg_conjugacy_classes G)"
    using assms(1) r by (simp add: oracle_invariants_def)
  show 2: "0 < length (sg_conjugacy_classes G)"
    using assms(1) by (simp add: oracle_invariants_def)
  have "Im (hd (sg_character_table G ! i)) = 0"
    using assms(1) r by (simp add: oracle_invariants_def)
  then show "Im (sg_character_table G ! i ! 0) = 0"
    using 1 2 by (cases "sg_character_table G ! i") simp_all
  show "length (sg_character_table G) = length (sg_conjugacy_classes G)"
    using assms(1) by (simp add: oracle_invariants_def)
qed

lemma oracle_invariants_shapes:
  assumes "oracle_invariants n G" "i < length (sg_conjugacy_classes G)"
  shows "\<forall>g \<in> set (sg_conjugacy_classes G ! i). has_shape n n g"
proof -
  have "sg_conjugacy_classes G ! i \<in> set (sg_conjugacy_classes G)" using assms(2) by simp
  then show ?thesis using assms(1) by (simp add: oracle_invariants_def has_shape_def)
qed

text \<open>The array that the body of \<open>get_projection_operator\<close> builds.\<close>

lemma projection_sum_spec:
  assumes I: "oracle_invariants n G" and i: "i < length (sg_character_table G)"
  shows "\<exists>R. projection_sum (sg_conjugacy_classes G) (sg_character_table G ! i)
                [0 ..< length (sg_character_table G ! i)] (np_zeros n n) = Inr R \<and>
              is_spec_projection G n i
                (np_div (np_mul R (complex_of_real (Re (sg_character_table G ! i ! 0))))
                   (complex_of_real (real_of_int (sg_order G))))"
proof -
  let ?M = "sg_conjugacy_classes G" and ?X = "sg_character_table G ! i"
  note t = oracle_invariants_table[OF I i]
  have "\<forall>j \<in> set [0 ..< length ?X]. j < length ?M \<and> j < length ?X \<and>
          (\<forall>g \<in> set (?M ! j). has_shape n n g)"
    using t(1) oracle_invariants_shapes[OF I] by simp
  from projection_sum_entries[OF np_zeros_shape this]
  obtain R where R: "projection_sum ?M ?X [0 ..< length ?X] (np_zeros n n) = Inr R"
      "has_shape n n R"
      "\<forall>r < n. \<forall>c < n. R ! r ! c =
          np_zeros n n ! r ! c + (\<Sum>j \<leftarrow> [0 ..< length ?X]. \<Sum>g \<leftarrow> ?M ! j. ?X ! j * (g ! r ! c))"
    by blast
  let ?d = "complex_of_real (Re (?X ! 0))" and ?o = "complex_of_real (real_of_int (sg_order G))"
  let ?P = "np_div (np_mul R ?d) ?o"
  have sh: "has_shape n n (np_mul R ?d)" "has_shape n n ?P"
    using R(2) by (simp_all add: np_mul_shape np_div_shape)
  have e: "?P ! r ! c = spec_projection_entry G i r c" if "r < n" "c < n" for r c
  proof -
    have "?P ! r ! c = R ! r ! c * ?d / ?o"
      using that sh R(2) by (simp add: np_div_entry np_mul_entry)
    also have "R ! r ! c = (\<Sum>j < length ?M. \<Sum>g \<leftarrow> ?M ! j. ?X ! j * (g ! r ! c))"
      using R(3) that t(1)
      by (simp add: np_zeros_entry interv_sum_list_conv_sum_set_nat atLeast0LessThan)
    finally show ?thesis
      by (simp add: spec_projection_entry_def)
  qed
  have "is_spec_projection G n i ?P"
    using sh(2) e by (simp add: is_spec_projection_def has_shape_def)
  then show ?thesis using R(1) by blast
qed

lemma slot_empty_getitem:
  assumes "slot_empty s j" "- int k \<le> j" "j < int k"
    and "ops = (case self_projection_operators s of None \<Rightarrow> replicate k None | Some ops \<Rightarrow> ops)"
  shows "py_getitem ops j = Inr None"
proof (cases "self_projection_operators s")
  case None
  then have "ops = replicate k None" using assms(4) by simp
  then show ?thesis using assms(2,3) by (auto simp: py_getitem_def)
next
  case (Some a)
  then show ?thesis using assms(1,4) by (simp add: slot_empty_def)
qed

lemma compute_projection_operator_spec:
  assumes C: "cache_coherent Sage G s" and I: "oracle_invariants (self_nnodes s) G"
    and J: "- int (length (sg_character_table G)) \<le> j" "j < int (length (sg_character_table G))"
    and O: "self_projection_operators s = Some ops"
      "length ops = length (sg_character_table G)"
  shows "\<exists>P s'. compute_projection_operator Sage j s = (Inr (length (heap s)), s') \<and>
           heap s' = heap s @ [P] \<and>
           is_spec_projection G (self_nnodes s) (py_index (length (sg_character_table G)) j) P \<and>
           oracle_loaded Sage G s' \<and> self_group s' = Some G \<and>
           self_IRR_degeneracies s' = self_IRR_degeneracies s \<and>
           self_projection_operators s' =
             Some (ops[py_index (length (sg_character_table G)) j := Some (length (heap s))]) \<and>
           self_adjmat s' = self_adjmat s \<and> self_nnodes s' = self_nnodes s \<and>
           self_transformation_operator s' = self_transformation_operator s"
proof -
  let ?k = "length (sg_character_table G)" and ?tbl = "sg_character_table G"
  let ?i = "py_index ?k j"
  have i: "py_getitem ?tbl j = Inr (?tbl ! ?i)" "?i < ?k"
    using py_getitem_index[OF J] by simp_all
  note t = oracle_invariants_table[OF I i(2)]
  have d: "py_getitem (?tbl ! ?i) 0 = Inr (?tbl ! ?i ! 0)"
    using t(1,2) by (simp add: py_getitem_def)
  obtain s1 where 1: "get_character_table Sage s = (Inr ?tbl, s1)" "cache_coherent Sage G s1"
      "same_derived s s1"
    using get_character_table_coherent[OF C] by blast
  obtain s2 where 2: "get_automorphism_group Sage s1 = (Inr G, s2)" "cache_coherent Sage G s2"
      "same_derived s1 s2" "self_group s2 = Some G"
    using get_automorphism_group_coherent[OF 1(2)] by blast
  obtain s3 where 3: "get_character_table Sage s2 = (Inr ?tbl, s3)" "cache_coherent Sage G s3"
      "same_derived s2 s3"
    using get_character_table_coherent[OF 2(2)] by blast
  obtain s4 where 4: "get_conjugacy_classes_matrices Sage s3 = (Inr (sg_conjugacy_classes G), s4)"
      "cache_coherent Sage G s4" "same_derived s3 s4"
    using get_conjugacy_classes_matrices_coherent[OF 3(2)] by blast
  have g4: "self_group s4 = Some G"
    using get_conjugacy_classes_matrices_group[OF 4(1) get_character_table_group[OF 3(1) 2(4)]] .
  have f: "same_derived s s4"
    using 1(3) 2(3) 3(3) 4(3) by (blast intro: same_derived_trans)
  have dg: "self_IRR_degeneracies s4 = self_IRR_degeneracies s"
    using get_character_table_frame[OF 1(1)] get_automorphism_group_frame[OF 2(1)]
      get_character_table_frame[OF 3(1)] get_conjugacy_classes_matrices_frame[OF 4(1)]
    by simp
  have n4: "self_nnodes s4 = self_nnodes s" "heap s4 = heap s"
      "self_projection_operators s4 = Some ops"
    using f O(1) by (simp_all add: same_derived_def)
  obtain R where R: "projection_sum (sg_conjugacy_classes G) (?tbl ! ?i)
                [0 ..< length (?tbl ! ?i)] (np_zeros (self_nnodes s) (self_nnodes s)) = Inr R"
      "is_spec_projection G (self_nnodes s) ?i
                (np_div (np_mul R (complex_of_real (Re (?tbl ! ?i ! 0))))
                   (complex_of_real (real_of_int (sg_order G))))"
    using projection_sum_spec[OF I i(2)] by blast
  let ?P = "np_div (np_mul R (complex_of_real (Re (?tbl ! ?i ! 0))))
                   (complex_of_real (real_of_int (sg_order G)))"
  let ?s' = "s4\<lparr>heap := heap s4 @ [?P],
                 self_projection_operators := Some (py_setitem ops j (Some (length (heap s4))))\<rparr>"
  have run: "compute_projection_operator Sage j s = (Inr (length (heap s)), ?s')"
    using 1(1) 2(1) 3(1) 4(1) i(1) d R(1) t(3) n4
    by (simp add: compute_projection_operator_def py_float_def)
  have set: "py_setitem ops j (Some (length (heap s4))) = ops[?i := Some (length (heap s))]"
    using py_setitem_index[of ops j] J O(2) n4 by simp
  have L: "oracle_loaded Sage G ?s'"
    using 4(2) g4 by (simp add: cache_coherent_def oracle_loaded_def)
  show ?thesis
    using run set L g4 dg R(2) f n4
    by (simp add: same_derived_def)
qed

lemma length_spec_degeneracies: "length (spec_degeneracies G) = length (sg_character_table G)"
  by (simp add: spec_degeneracies_def)

text \<open>
  \<open>get_projection_operator\<close> up to its index test: the degeneracies are there and the
  list of slots is allocated.
\<close>

lemma get_projection_operator_prelude:
  assumes C: "cache_coherent Sage G s" and I: "oracle_invariants (self_nnodes s) G"
  shows "\<exists>s1 ops. get_IRR_degeneracies Sage s = (Inr (spec_degeneracies G), s1) \<and>
           ops = (case self_projection_operators s of
                    None \<Rightarrow> replicate (length (sg_character_table G)) None
                  | Some ops \<Rightarrow> ops) \<and>
           length ops = length (sg_character_table G) \<and>
           same_derived s s1 \<and>
           cache_coherent Sage G (s1\<lparr>self_projection_operators := Some ops\<rparr>) \<and>
           self_IRR_degeneracies s1 = Some (spec_degeneracies G) \<and>
           get_projection_operator Sage j s =
             (case py_getitem ops j of
                Inl e \<Rightarrow> (Inl e, s1\<lparr>self_projection_operators := Some ops\<rparr>)
              | Inr slot \<Rightarrow>
                  (case eq_None_test (heap s) slot of
                     Inl e \<Rightarrow> (Inl e, s1\<lparr>self_projection_operators := Some ops\<rparr>)
                   | Inr True \<Rightarrow>
                       compute_projection_operator Sage j
                         (s1\<lparr>self_projection_operators := Some ops\<rparr>)
                   | Inr False \<Rightarrow>
                       (case slot of
                          None \<Rightarrow> (Inl TypeError, s1\<lparr>self_projection_operators := Some ops\<rparr>)
                        | Some a \<Rightarrow> (Inr a, s1\<lparr>self_projection_operators := Some ops\<rparr>))))"
proof -
  obtain s1 where 1: "get_IRR_degeneracies Sage s = (Inr (spec_degeneracies G), s1)"
      "cache_coherent Sage G s1" "same_derived s s1"
      "self_IRR_degeneracies s1 = Some (spec_degeneracies G)"
    using get_IRR_degeneracies_coherent[OF C I] by blast
  define ops where "ops = (case self_projection_operators s of
                    None \<Rightarrow> replicate (length (sg_character_table G)) None
                  | Some ops \<Rightarrow> ops)"
  have p: "self_projection_operators s1 = self_projection_operators s" "heap s1 = heap s"
    using 1(3) by (simp_all add: same_derived_def)
  have len: "length ops = length (sg_character_table G)"
    using C by (auto simp: ops_def cache_coherent_def split: option.splits)
  have coh: "cache_coherent Sage G (s1\<lparr>self_projection_operators := Some ops\<rparr>)"
    using 1(2) len by (simp add: cache_coherent_def oracle_loaded_def adjmat_value_def)
  have "get_projection_operator Sage j s =
             (case py_getitem ops j of
                Inl e \<Rightarrow> (Inl e, s1\<lparr>self_projection_operators := Some ops\<rparr>)
              | Inr slot \<Rightarrow>
                  (case eq_None_test (heap s) slot of
                     Inl e \<Rightarrow> (Inl e, s1\<lparr>self_projection_operators := Some ops\<rparr>)
                   | Inr True \<Rightarrow>
                       compute_projection_operator Sage j
                         (s1\<lparr>self_projection_operators := Some ops\<rparr>)
                   | Inr False \<Rightarrow>
                       (case slot of
                          None \<Rightarrow> (Inl TypeError, s1\<lparr>self_projection_operators := Some ops\<rparr>)
                        | Some a \<Rightarrow> (Inr a, s1\<lparr>self_projection_operators := Some ops\<rparr>))))"
    by (cases "self_projection_operators s")
       (auto simp: get_projection_operator_def 1(1) p ops_def length_spec_degeneracies Let_def
          split: sum.splits option.splits bool.splits)
  then show ?thesis using 1 len coh ops_def by blast
qed

lemma get_projection_operator_spec:
  assumes C: "cache_coherent Sage G s" and I: "oracle_invariants (self_nnodes s) G"
    and J: "- int (length (sg_character_table G)) \<le> j" "j < int (length (sg_character_table G))"
    and E: "slot_empty s j"
  shows "\<exists>P s' ops. get_projection_operator Sage j s = (Inr (length (heap s)), s') \<and>
           heap s' = heap s @ [P] \<and>
           is_spec_projection G (self_nnodes s) (py_index (length (sg_character_table G)) j) P \<and>
           cache_coherent Sage G s' \<and>
           length ops = length (sg_character_table G) \<and>
           self_projection_operators s' =
             Some (ops[py_index (length (sg_character_table G)) j := Some (length (heap s))]) \<and>
           (\<forall>ops0. self_projection_operators s = Some ops0 \<longrightarrow> ops = ops0) \<and>
           self_adjmat s' = self_adjmat s \<and> self_nnodes s' = self_nnodes s \<and>
           self_transformation_operator s' = self_transformation_operator s"
proof -
  let ?k = "length (sg_character_table G)"
  obtain s1 ops where 1:
      "ops = (case self_projection_operators s of None \<Rightarrow> replicate ?k None | Some ops \<Rightarrow> ops)"
      "length ops = ?k" "same_derived s s1"
      "cache_coherent Sage G (s1\<lparr>self_projection_operators := Some ops\<rparr>)"
      "self_IRR_degeneracies s1 = Some (spec_degeneracies G)"
      "get_projection_operator Sage j s =
             (case py_getitem ops j of
                Inl e \<Rightarrow> (Inl e, s1\<lparr>self_projection_operators := Some ops\<rparr>)
              | Inr slot \<Rightarrow>
                  (case eq_None_test (heap s) slot of
                     Inl e \<Rightarrow> (Inl e, s1\<lparr>self_projection_operators := Some ops\<rparr>)
                   | Inr True \<Rightarrow>
                       compute_projection_operator Sage j
                         (s1\<lparr>self_projection_operators := Some ops\<rparr>)
                   | Inr False \<Rightarrow>
                       (case slot of
                          None \<Rightarrow> (Inl TypeError, s1\<lparr>self_projection_operators := Some ops\<rparr>)
                        | Some a \<Rightarrow> (Inr a, s1\<lparr>self_projection_operators := Some ops\<rparr>))))"
    using get_projection_operator_prelude[OF C I, of j] by blast
  let ?s2 = "s1\<lparr>self_projection_operators := Some ops\<rparr>"
  have g: "py_getitem ops j = Inr None"
    using slot_empty_getitem[OF E J 1(1)] .
  have run: "get_projection_operator Sage j s = compute_projection_operator Sage j ?s2"
    using 1(6) g by (simp add: eq_None_test_def)
  have f: "self_nnodes ?s2 = self_nnodes s" "heap ?s2 = heap s" "self_adjmat ?s2 = self_adjmat s"
      "self_transformation_operator ?s2 = self_transformation_operator s"
    using 1(3) by (simp_all add: same_derived_def)
  have I2: "oracle_invariants (self_nnodes ?s2) G" using I f by simp
  have O2: "self_projection_operators ?s2 = Some ops" by simp
  from compute_projection_operator_spec[OF 1(4) I2 J O2 1(2)]
  obtain P s' where s': "compute_projection_operator Sage j ?s2 = (Inr (length (heap ?s2)), s')"
      "heap s' = heap ?s2 @ [P]"
      "is_spec_projection G (self_nnodes ?s2) (py_index ?k j) P"
      "oracle_loaded Sage G s'" "self_group s' = Some G"
      "self_IRR_degeneracies s' = self_IRR_degeneracies ?s2"
      "self_projection_operators s' = Some (ops[py_index ?k j := Some (length (heap ?s2))])"
      "self_adjmat s' = self_adjmat ?s2" "self_nnodes s' = self_nnodes ?s2"
      "self_transformation_operator s' = self_transformation_operator ?s2"
    by blast
  have coh: "cache_coherent Sage G s'"
    using s'(4,6,7) 1(2,5) by (simp add: cache_coherent_def)
  have o0: "\<forall>ops0. self_projection_operators s = Some ops0 \<longrightarrow> ops = ops0"
    using 1(1) by simp
  show ?thesis
    using run s' coh o0 1(2) f by (simp del: One_nat_def) blast
qed

text \<open>
  A first request: for a valid IRR index \<open>j\<close> whose projection operator is not cached
  yet, \<open>get_projection_operator(j)\<close> returns the \<open>n\<close>-by-\<open>n\<close> matrix
  \<open>(dimension\<^sub>j / |G|) \<sqdot> \<Sum>\<^sub>i \<Sum>\<^sub>g\<^sub>\<in>\<^sub>c\<^sub>l\<^sub>a\<^sub>s\<^sub>s\<^sub>i character[j][i] \<sqdot> D(g)\<close>: every element of every class
  contributes its own permutation matrix, weighted by the unconjugated character value
  of its class.
\<close>

lemma get_projection_operator_first_request:
  assumes "cache_coherent Sage G s" and "oracle_invariants (self_nnodes s) G"
    and "0 \<le> j" and "j < int (length (sg_character_table G))"
    and "slot_empty s j"
  shows "\<exists>a. fst (get_projection_operator Sage j s) = Inr a \<and>
           is_spec_projection G (self_nnodes s) (nat j)
             (heap (snd (get_projection_operator Sage j s)) ! a)"
proof -
  have J: "- int (length (sg_character_table G)) \<le> j" using assms(3) by simp
  from get_projection_operator_spec[OF assms(1,2) J assms(4,5)] assms(3)
  show ?thesis by (auto simp: py_index_def)
qed

text \<open>
  A first request with a negative index \<open>j\<close>, \<open>-numIRRs \<le> j < 0\<close>: the index is not
  rejected, the call returns the projection operator of IRR \<open>numIRRs + j\<close> and caches it
  in that slot.
\<close>

lemma get_projection_operator_first_request_negative:
  assumes "cache_coherent Sage G s" and "oracle_invariants (self_nnodes s) G"
    and "- int (length (sg_character_table G)) \<le> j" and "j < 0"
    and "slot_empty s j"
  shows "\<exists>a. fst (get_projection_operator Sage j s) = Inr a \<and>
           is_spec_projection G (self_nnodes s) (nat (int (length (sg_character_table G)) + j))
             (heap (snd (get_projection_operator Sage j s)) ! a) \<and>
           (\<exists>ops. self_projection_operators (snd (get_projection_operator Sage j s)) = Some ops \<and>
                  ops ! nat (int (length (sg_character_table G)) + j) = Some a)"
proof -
  have J: "j < int (length (sg_character_table G))" using assms(4) by simp
  have i: "py_index (length (sg_character_table G)) j = nat (int (length (sg_character_table G)) + j)"
      "nat (int (length (sg_character_table G)) + j) < length (sg_character_table G)"
    using assms(3,4) by (auto simp: py_index_def)
  from get_projection_operator_spec[OF assms(1,2,3) J assms(5)]
  obtain P s' ops where s': "get_projection_operator Sage j s = (Inr (length (heap s)), s')"
      "heap s' = heap s @ [P]"
      "is_spec_projection G (self_nnodes s) (py_index (length (sg_character_table G)) j) P"
      "length ops = length (sg_character_table G)"
      "self_projection_operators s' =
         Some (ops[py_index (length (sg_character_table G)) j := Some (length (heap s))])"
    by blast
  then show ?thesis using i by simp
qed

text \<open>
  C5, as the code has it. An index \<open>j\<close> with \<open>j \<ge> numIRRs\<close> or \<open>j < -numIRRs\<close> raises
  IndexError, and no projection operator is computed or stored: the arrays and the cached
  projection operators are as before. The degeneracies have been computed and cached by
  then, and the list of slots allocated.
\<close>

theorem get_projection_operator_index_error:
  assumes "cache_coherent Sage G s" and "oracle_invariants (self_nnodes s) G"
    and "j < - int (length (sg_character_table G)) \<or> int (length (sg_character_table G)) \<le> j"
  shows "fst (get_projection_operator Sage j s) = Inl IndexError \<and>
         same_derived s
           ((snd (get_projection_operator Sage j s))
              \<lparr>self_projection_operators := self_projection_operators s\<rparr>) \<and>
         self_projection_operators (snd (get_projection_operator Sage j s)) =
           Some (case self_projection_operators s of
                   None \<Rightarrow> replicate (length (sg_character_table G)) None
                 | Some ops \<Rightarrow> ops) \<and>
         self_IRR_degeneracies (snd (get_projection_operator Sage j s)) =
           Some (spec_degeneracies G)"
proof -
  let ?k = "length (sg_character_table G)"
  obtain s1 ops where 1:
      "ops = (case self_projection_operators s of None \<Rightarrow> replicate ?k None | Some ops \<Rightarrow> ops)"
      "length ops = ?k" "same_derived s s1"
      "self_IRR_degeneracies s1 = Some (spec_degeneracies G)"
      "get_projection_operator Sage j s =
             (case py_getitem ops j of
                Inl e \<Rightarrow> (Inl e, s1\<lparr>self_projection_operators := Some ops\<rparr>)
              | Inr slot \<Rightarrow>
                  (case eq_None_test (heap s) slot of
                     Inl e \<Rightarrow> (Inl e, s1\<lparr>self_projection_operators := Some ops\<rparr>)
                   | Inr True \<Rightarrow>
                       compute_projection_operator Sage j
                         (s1\<lparr>self_projection_operators := Some ops\<rparr>)
                   | Inr False \<Rightarrow>
                       (case slot of
                          None \<Rightarrow> (Inl TypeError, s1\<lparr>self_projection_operators := Some ops\<rparr>)
                        | Some a \<Rightarrow> (Inr a, s1\<lparr>self_projection_operators := Some ops\<rparr>))))"
    using get_projection_operator_prelude[OF assms(1,2), of j] by blast
  have "py_getitem ops j = Inl IndexError"
    using py_getitem_outside[of j ops] assms(3) 1(2) by simp
  then have "get_projection_operator Sage j s =
               (Inl IndexError, s1\<lparr>self_projection_operators := Some ops\<rparr>)"
    using 1(5) by simp
  then show ?thesis using 1(1,3,4) by (simp add: same_derived_def)
qed

subsection \<open>Projection operators: instances, and imaginary parts\<close>

text \<open>
  On the complete graph on 2 nodes the projection operator of IRR 1 (the sign
  representation) is \<open>[[1/2, -1/2], [-1/2, 1/2]]\<close>.
\<close>

lemma get_projection_operator_first_request_K2:
  "cache_coherent K2_sage K2_group K2 \<and> oracle_invariants (self_nnodes K2) K2_group \<and>
   (0::int) \<le> 1 \<and> 1 < int (length (sg_character_table K2_group)) \<and> slot_empty K2 1 \<and>
   (\<exists>a. fst (get_projection_operator K2_sage 1 K2) = Inr a \<and>
        is_spec_projection K2_group (self_nnodes K2) (nat 1)
          (heap (snd (get_projection_operator K2_sage 1 K2)) ! a)) \<and>
   heap (snd (get_projection_operator K2_sage 1 K2)) ! 1 = [[1 / 2, - (1 / 2)], [- (1 / 2), 1 / 2]]"
proof -
  have h: "(0::int) \<le> 1" "1 < int (length (sg_character_table K2_group))" "slot_empty K2 1"
    by (simp_all add: slot_empty_def network_defs model_defs)
  have v: "heap (snd (get_projection_operator K2_sage 1 K2)) ! 1
             = [[1 / 2, - (1 / 2)], [- (1 / 2), 1 / 2]]"
    by (simp add: network_defs model_defs)
  show ?thesis
    using get_projection_operator_first_request[OF K2_coherent K2_invariants h] K2_coherent
      K2_invariants h v
    by blast
qed

text \<open>
  On the complete graph on 2 nodes the index \<open>-1\<close> fills slot 1.
\<close>

lemma get_projection_operator_first_request_negative_K2:
  "cache_coherent K2_sage K2_group K2 \<and> oracle_invariants (self_nnodes K2) K2_group \<and>
   - int (length (sg_character_table K2_group)) \<le> - 1 \<and> (- 1 :: int) < 0 \<and>
   slot_empty K2 (- 1) \<and>
   (\<exists>a. fst (get_projection_operator K2_sage (- 1) K2) = Inr a \<and>
        is_spec_projection K2_group (self_nnodes K2)
          (nat (int (length (sg_character_table K2_group)) + - 1))
          (heap (snd (get_projection_operator K2_sage (- 1) K2)) ! a) \<and>
        (\<exists>ops. self_projection_operators (snd (get_projection_operator K2_sage (- 1) K2))
                 = Some ops \<and>
               ops ! nat (int (length (sg_character_table K2_group)) + - 1) = Some a)) \<and>
   self_projection_operators (snd (get_projection_operator K2_sage (- 1) K2))
     = Some [None, Some 1]"
proof -
  have h: "- int (length (sg_character_table K2_group)) \<le> - 1" "(- 1 :: int) < 0"
      "slot_empty K2 (- 1)"
    by (simp_all add: slot_empty_def network_defs model_defs)
  have v: "self_projection_operators (snd (get_projection_operator K2_sage (- 1) K2))
     = Some [None, Some 1]"
    by (simp add: network_defs model_defs)
  show ?thesis
    using get_projection_operator_first_request_negative[OF K2_coherent K2_invariants h] K2_coherent
      K2_invariants h v
    by blast
qed

text \<open>
  On the complete graph on 2 nodes the index 2 raises IndexError.
\<close>

theorem get_projection_operator_index_error_witness:
  "cache_coherent K2_sage K2_group K2 \<and> oracle_invariants (self_nnodes K2) K2_group \<and>
   (2 < - int (length (sg_character_table K2_group))
      \<or> int (length (sg_character_table K2_group)) \<le> 2) \<and>
   fst (get_projection_operator K2_sage 2 K2) = Inl IndexError \<and>
   same_derived K2
     ((snd (get_projection_operator K2_sage 2 K2))
        \<lparr>self_projection_operators := self_projection_operators K2\<rparr>) \<and>
   self_projection_operators (snd (get_projection_operator K2_sage 2 K2)) =
     Some (case self_projection_operators K2 of
             None \<Rightarrow> replicate (length (sg_character_table K2_group)) None
           | Some ops \<Rightarrow> ops) \<and>
   self_IRR_degeneracies (snd (get_projection_operator K2_sage 2 K2)) =
     Some (spec_degeneracies K2_group)"
proof -
  have h: "2 < - int (length (sg_character_table K2_group))
      \<or> int (length (sg_character_table K2_group)) \<le> 2"
    by (simp add: network_defs)
  show ?thesis
    using get_projection_operator_index_error[OF K2_coherent K2_invariants h] K2_coherent
      K2_invariants h
    by blast
qed

text \<open>The imaginary part of a list sum.\<close>

lemma sum_list_map_zero: "(\<And>x. x \<in> set xs \<Longrightarrow> f x = (0::real)) \<Longrightarrow> sum_list (map f xs) = 0"
  by (induction xs) simp_all

lemma Im_sum_list: "Im (sum_list xs) = sum_list (map Im xs)"
  by (induction xs) simp_all

text \<open>
  C7, as the code has it. The matrix that \<open>get_projection_operator\<close> returns is the
  complex group sum itself, scaled: nothing is cast or truncated, and the imaginary part
  of every entry is the imaginary part of the sum. It vanishes when the character values
  of row \<open>j\<close> and the class matrices are real.
\<close>

theorem get_projection_operator_imaginary_parts:
  assumes "cache_coherent Sage G s" and "oracle_invariants (self_nnodes s) G"
    and "0 \<le> j" and "j < int (length (sg_character_table G))"
    and "slot_empty s j"
  shows "\<exists>a. fst (get_projection_operator Sage j s) = Inr a \<and>
           (\<forall>r < self_nnodes s. \<forall>c < self_nnodes s.
              Im (heap (snd (get_projection_operator Sage j s)) ! a ! r ! c) =
                Re (sg_character_table G ! nat j ! 0) / real_of_int (sg_order G) *
                (\<Sum>i < length (sg_conjugacy_classes G).
                   \<Sum>g \<leftarrow> sg_conjugacy_classes G ! i.
                     Im (sg_character_table G ! nat j ! i * (g ! r ! c))) \<and>
              ((\<forall>x \<in> set (sg_character_table G ! nat j). Im x = 0) \<and>
               (\<forall>cls \<in> set (sg_conjugacy_classes G). \<forall>g \<in> set cls.
                  \<forall>row \<in> set g. \<forall>x \<in> set row. Im x = 0) \<longrightarrow>
               Im (heap (snd (get_projection_operator Sage j s)) ! a ! r ! c) = 0))"
proof -
  let ?n = "self_nnodes s" and ?X = "sg_character_table G ! nat j"
  let ?M = "sg_conjugacy_classes G"
  have J: "nat j < length (sg_character_table G)" using assms(3,4) by simp
  note t = oracle_invariants_table[OF assms(2) J]
  have J': "- int (length (sg_character_table G)) \<le> j" using assms(3) by simp
  have "\<exists>a. fst (get_projection_operator Sage j s) = Inr a \<and>
           is_spec_projection G ?n (nat j) (heap (snd (get_projection_operator Sage j s)) ! a)"
    using get_projection_operator_spec[OF assms(1,2) J' assms(4,5)] assms(3)
    by (auto simp: py_index_def)
  then obtain a where a: "fst (get_projection_operator Sage j s) = Inr a"
      "is_spec_projection G ?n (nat j) (heap (snd (get_projection_operator Sage j s)) ! a)"
    by blast
  let ?P = "heap (snd (get_projection_operator Sage j s)) ! a"
  have im: "Im (?P ! r ! c) =
              Re (?X ! 0) / real_of_int (sg_order G) *
                (\<Sum>i < length ?M. \<Sum>g \<leftarrow> ?M ! i. Im (?X ! i * (g ! r ! c)))"
    if "r < ?n" "c < ?n" for r c
  proof -
    have "?P ! r ! c = spec_projection_entry G (nat j) r c"
      using a(2) that by (simp add: is_spec_projection_def)
    then show ?thesis
      by (simp add: spec_projection_entry_def Im_sum_list comp_def del: of_real_divide)
  qed
  have re: "Im (?X ! i * (g ! r ! c)) = 0"
    if "r < ?n" "c < ?n" "i < length ?M" "g \<in> set (?M ! i)"
      "\<forall>x \<in> set ?X. Im x = 0"
      "\<forall>cls \<in> set ?M. \<forall>g \<in> set cls. \<forall>row \<in> set g. \<forall>x \<in> set row. Im x = 0"
    for r c i g
  proof -
    have sh: "has_shape ?n ?n g" using oracle_invariants_shapes[OF assms(2) that(3)] that(4) by simp
    have "?X ! i \<in> set ?X" using that(3) t(1) by simp
    then have 1: "Im (?X ! i) = 0" using that(5) by simp
    have "g ! r \<in> set g" using sh that(1) by (simp add: has_shape_def)
    moreover have "g ! r ! c \<in> set (g ! r)" using sh that(1,2) by (simp add: has_shape_def)
    moreover have "?M ! i \<in> set ?M" using that(3) by simp
    ultimately have "Im (g ! r ! c) = 0" using that(4,6) by blast
    with 1 show ?thesis by simp
  qed
  have z: "Im (?P ! r ! c) = 0"
    if "r < ?n" "c < ?n" "\<forall>x \<in> set ?X. Im x = 0"
      "\<forall>cls \<in> set ?M. \<forall>g \<in> set cls. \<forall>row \<in> set g. \<forall>x \<in> set row. Im x = 0"
    for r c
  proof -
    have "(\<Sum>g \<leftarrow> ?M ! i. Im (?X ! i * (g ! r ! c))) = 0" if "i < length ?M" for i
      by (rule sum_list_map_zero) (rule re[OF \<open>r < ?n\<close> \<open>c < ?n\<close> that _ \<open>\<forall>x \<in> set ?X. Im x = 0\<close>
            \<open>\<forall>cls \<in> set ?M. \<forall>g \<in> set cls. \<forall>row \<in> set g. \<forall>x \<in> set row. Im x = 0\<close>])
    then show ?thesis using im[OF that(1,2)] by simp
  qed
  show ?thesis using a(1) im z by blast
qed

text \<open>
  On the complete graph on 2 nodes the character table and the class matrices are real,
  and so is the projection operator of IRR 1.
\<close>

theorem get_projection_operator_imaginary_parts_witness:
  "cache_coherent K2_sage K2_group K2 \<and> oracle_invariants (self_nnodes K2) K2_group \<and>
   (0::int) \<le> 1 \<and> 1 < int (length (sg_character_table K2_group)) \<and> slot_empty K2 1 \<and>
   (0::nat) < self_nnodes K2 \<and> (1::nat) < self_nnodes K2 \<and>
   list_all (\<lambda>x. Im x = 0) (sg_character_table K2_group ! nat 1) \<and>
   list_all (list_all (list_all (list_all (\<lambda>x. Im x = 0)))) (sg_conjugacy_classes K2_group) \<and>
   fst (get_projection_operator K2_sage 1 K2) = Inr 1 \<and>
   Im (heap (snd (get_projection_operator K2_sage 1 K2)) ! 1 ! 0 ! 1) = 0"
proof -
  have h: "(0::int) \<le> 1" "1 < int (length (sg_character_table K2_group))" "slot_empty K2 1"
    by (simp_all add: slot_empty_def network_defs model_defs)
  have n: "(0::nat) < self_nnodes K2" "(1::nat) < self_nnodes K2"
    by (simp_all add: network_defs model_defs)
  have r: "list_all (\<lambda>x. Im x = 0) (sg_character_table K2_group ! nat 1)"
      "list_all (list_all (list_all (list_all (\<lambda>x. Im x = 0)))) (sg_conjugacy_classes K2_group)"
    by (simp_all add: network_defs)
  have r': "(\<forall>x \<in> set (sg_character_table K2_group ! nat 1). Im x = 0) \<and>
               (\<forall>cls \<in> set (sg_conjugacy_classes K2_group). \<forall>g \<in> set cls.
                  \<forall>row \<in> set g. \<forall>x \<in> set row. Im x = 0)"
    using r by (simp add: list_all_iff)
  have v: "fst (get_projection_operator K2_sage 1 K2) = Inr 1"
    by (simp add: network_defs model_defs)
  from get_projection_operator_imaginary_parts[OF K2_coherent K2_invariants h]
  obtain a where a: "fst (get_projection_operator K2_sage 1 K2) = Inr a"
    "\<And>r c. r < self_nnodes K2 \<Longrightarrow> c < self_nnodes K2 \<Longrightarrow>
       (\<forall>x \<in> set (sg_character_table K2_group ! nat 1). Im x = 0) \<and>
               (\<forall>cls \<in> set (sg_conjugacy_classes K2_group). \<forall>g \<in> set cls.
                  \<forall>row \<in> set g. \<forall>x \<in> set row. Im x = 0) \<Longrightarrow>
       Im (heap (snd (get_projection_operator K2_sage 1 K2)) ! a ! r ! c) = 0"
    by blast
  have "a = 1" using a(1) v by simp
  with a(2)[OF n r']
  have "Im (heap (snd (get_projection_operator K2_sage 1 K2)) ! 1 ! 0 ! 1) = 0"
    by simp
  then show ?thesis
    using K2_coherent K2_invariants h n r v by blast
qed

subsection \<open>What the getters keep\<close>

lemma slots_kept_iff:
  "slots_kept ops ops' \<longleftrightarrow>
     length ops' = length ops \<and> (\<forall>k < length ops. \<forall>a. ops ! k = Some a \<longrightarrow> ops' ! k = Some a)"
  by (auto simp: slots_kept_def list_all_length split: option.splits)

lemma slots_kept_refl: "slots_kept ops ops"
  by (simp add: slots_kept_iff)

lemma slots_kept_trans: "slots_kept a b \<Longrightarrow> slots_kept b c \<Longrightarrow> slots_kept a c"
  by (simp add: slots_kept_iff)

lemma slots_kept_update:
  "k < length ops \<Longrightarrow> ops ! k = None \<Longrightarrow> slots_kept ops (ops[k := v])"
  by (auto simp: slots_kept_iff nth_list_update)

lemma caches_kept_refl: "caches_kept s s"
  by (simp add: caches_kept_def slots_kept_refl split: option.splits)

lemma take_prefix_trans:
  assumes "take (length a) b = a" "take (length b) c = b"
  shows "take (length a) c = a"
proof -
  have "length (take (length a) b) = length a" using assms(1) by simp
  then have "length a \<le> length b" by simp
  then have "take (length a) c = take (length a) (take (length b) c)" by (simp add: min_def)
  then show ?thesis using assms by simp
qed

lemma caches_kept_trans:
  assumes "caches_kept s s'" "caches_kept s' s''"
  shows "caches_kept s s''"
proof -
  have "take (length (heap s)) (heap s') = heap s" "take (length (heap s')) (heap s'') = heap s'"
    using assms by (simp_all add: caches_kept_def)
  then have h: "take (length (heap s)) (heap s'') = heap s"
    by (rule take_prefix_trans)
  show ?thesis
    using assms h
    by (auto simp: caches_kept_def split: option.splits intro: slots_kept_trans)
qed

lemma same_derived_kept:
  assumes "same_derived s s'" "self_IRR_degeneracies s' = self_IRR_degeneracies s"
    "case self_character_table s of None \<Rightarrow> True | Some t \<Rightarrow> self_character_table s' = Some t"
  shows "caches_kept s s'"
  using assms by (auto simp: same_derived_def caches_kept_def slots_kept_refl split: option.splits)

lemma same_derived_heap_ok: "same_derived s s' \<Longrightarrow> heap_ok s \<Longrightarrow> heap_ok s'"
  by (auto simp: same_derived_def heap_ok_def split: option.splits)

lemma get_automorphism_group_table:
  "get_automorphism_group Sage s = (r, s') \<Longrightarrow> self_character_table s' = self_character_table s"
  by (auto simp: get_automorphism_group_def split: option.splits sum.splits)

lemma get_character_table_table:
  "get_character_table Sage s = (r, s') \<Longrightarrow> self_character_table s = Some t \<Longrightarrow>
     self_character_table s' = Some t"
  by (auto simp: get_character_table_def)

lemma get_character_table_result:
  "get_character_table Sage s = (Inr t, s') \<Longrightarrow> self_character_table s' = Some t"
  by (auto simp: get_character_table_def split: option.splits sum.splits prod.splits)

lemma get_conjugacy_classes_table:
  "get_conjugacy_classes Sage s = (r, s') \<Longrightarrow> self_character_table s' = self_character_table s"
  by (auto simp: get_conjugacy_classes_def split: option.splits sum.splits prod.splits
      dest: get_automorphism_group_table)

lemma get_conjugacy_classes_matrices_table:
  "get_conjugacy_classes_matrices Sage s = (r, s') \<Longrightarrow>
     self_character_table s' = self_character_table s"
  by (auto simp: get_conjugacy_classes_matrices_def split: option.splits sum.splits prod.splits
      dest: get_conjugacy_classes_table)

lemma get_automorphism_group_kept:
  assumes "get_automorphism_group Sage s = (r, s')"
  shows "caches_kept s s'" "same_derived s s'"
  using get_automorphism_group_frame[OF assms] get_automorphism_group_table[OF assms]
  by (auto intro!: same_derived_kept split: option.splits)

lemma get_character_table_kept:
  assumes "get_character_table Sage s = (r, s')"
  shows "caches_kept s s'" "same_derived s s'"
  using get_character_table_frame[OF assms] get_character_table_table[OF assms]
  by (auto intro!: same_derived_kept split: option.splits)

lemma get_conjugacy_classes_matrices_kept:
  assumes "get_conjugacy_classes_matrices Sage s = (r, s')"
  shows "caches_kept s s'" "same_derived s s'"
  using get_conjugacy_classes_matrices_frame[OF assms]
    get_conjugacy_classes_matrices_table[OF assms]
  by (auto intro!: same_derived_kept split: option.splits)

lemma caches_kept_field_update:
  "caches_kept s (s\<lparr>self_IRR_degeneracies := Some d\<rparr>) \<longleftrightarrow>
     self_IRR_degeneracies s \<in> {None, Some d}"
  by (auto simp: caches_kept_def slots_kept_refl split: option.splits)

lemma get_IRR_degeneracies_result:
  "get_IRR_degeneracies Sage s = (Inr d, s') \<Longrightarrow> self_IRR_degeneracies s' = Some d"
  by (auto simp: get_IRR_degeneracies_def split: option.splits sum.splits prod.splits)

lemma get_IRR_degeneracies_kept:
  assumes "get_IRR_degeneracies Sage s = (r, s')"
  shows "caches_kept s s'"
proof (cases "self_IRR_degeneracies s")
  case (Some d)
  then show ?thesis using assms by (simp add: get_IRR_degeneracies_def caches_kept_refl)
next
  case None
  have f: "same_derived s s'" using get_IRR_degeneracies_frame[OF assms] .
  have t: "self_character_table s' = Some t" if "self_character_table s = Some t" for t
    using assms None that
    by (auto simp: get_IRR_degeneracies_def get_character_table_def get_automorphism_group_def
        split: option.splits sum.splits prod.splits
        dest!: get_conjugacy_classes_matrices_table)
  show ?thesis using f None t
    by (auto simp: same_derived_def caches_kept_def slots_kept_refl split: option.splits)
qed

lemma compute_projection_operator_effect:
  assumes "compute_projection_operator Sage j s = (r, s')"
    and "self_projection_operators s = Some ops"
  shows "(\<exists>e. r = Inl e \<and> same_derived s s' \<and> caches_kept s s') \<or>
         (\<exists>P s4. r = Inr (length (heap s)) \<and> same_derived s s4 \<and> caches_kept s s4 \<and>
            s' = s4\<lparr>heap := heap s @ [P],
                    self_projection_operators :=
                      Some (py_setitem ops j (Some (length (heap s))))\<rparr>)"
proof -
  obtain r1 s1 where 1: "get_character_table Sage s = (r1, s1)" by force
  obtain r2 s2 where 2: "get_automorphism_group Sage s1 = (r2, s2)" by force
  obtain r3 s3 where 3: "get_character_table Sage s2 = (r3, s3)" by force
  obtain r4 s4 where 4: "get_conjugacy_classes_matrices Sage s3 = (r4, s4)" by force
  note k1 = get_character_table_kept[OF 1]
  note k2 = get_automorphism_group_kept[OF 2]
  note k3 = get_character_table_kept[OF 3]
  note k4 = get_conjugacy_classes_matrices_kept[OF 4]
  have c1: "caches_kept s s1" "same_derived s s1" using k1 by simp_all
  have c2: "caches_kept s s2" "same_derived s s2"
    using c1 k2 by (blast intro: caches_kept_trans same_derived_trans)+
  have c3: "caches_kept s s3" "same_derived s s3"
    using c2 k3 by (blast intro: caches_kept_trans same_derived_trans)+
  have c4: "caches_kept s s4" "same_derived s s4"
    using c3 k4 by (blast intro: caches_kept_trans same_derived_trans)+
  have p4: "self_projection_operators s4 = Some ops" "heap s4 = heap s"
    using c4(2) assms(2) by (simp_all add: same_derived_def)
  show ?thesis
    using assms(1) 1 2 3 4 c1 c2 c3 c4 p4
    by (auto simp: compute_projection_operator_def split: sum.splits option.splits)
qed

lemma py_getitem_valid:
  assumes "py_getitem xs j = Inr x"
  shows "- int (length xs) \<le> j" "j < int (length xs)"
  using assms by (auto simp: py_getitem_def split: if_splits)

lemma py_getitem_setitem:
  assumes "py_getitem xs j = Inr x"
  shows "py_getitem (py_setitem xs j v) j = Inr v"
proof -
  note v = py_getitem_valid[OF assms]
  have "py_getitem (xs[py_index (length xs) j := v]) j = Inr v"
    using py_getitem_index[of "xs[py_index (length xs) j := v]" j] v by simp
  then show ?thesis using py_setitem_index[OF v] by simp
qed

lemma py_setitem_slots_kept:
  assumes "py_getitem ops j = Inr None"
  shows "slots_kept ops (py_setitem ops j v)"
proof -
  note v = py_getitem_valid[OF assms]
  have "ops ! py_index (length ops) j = None" "py_index (length ops) j < length ops"
    using py_getitem_index[OF v] assms by simp_all
  then show ?thesis using py_setitem_index[OF v] by (simp add: slots_kept_update)
qed

lemma py_setitem_list_all:
  assumes "py_getitem xs j = Inr x" "list_all Q xs" "Q v"
  shows "list_all Q (py_setitem xs j v)"
proof -
  note v = py_getitem_valid[OF assms(1)]
  have "set (xs[py_index (length xs) j := v]) \<subseteq> insert v (set xs)"
    by (rule set_update_subset_insert)
  then show ?thesis using assms(2,3) py_setitem_index[OF v] by (auto simp: list_all_iff)
qed

lemma heap_ok_weaken:
  "list_all (\<lambda>x. case x of None \<Rightarrow> True | Some a \<Rightarrow> a < (n::nat)) ops \<Longrightarrow> n \<le> m \<Longrightarrow>
     list_all (\<lambda>x. case x of None \<Rightarrow> True | Some a \<Rightarrow> a < m) ops"
  by (induction ops) (auto split: option.splits)

lemma get_projection_operator_effect:
  assumes run: "get_projection_operator Sage j s = (r, s')" and ok: "heap_ok s"
  shows "caches_kept s s' \<and> heap_ok s' \<and>
         self_transformation_operator s' = self_transformation_operator s \<and>
         (\<forall>a. r = Inr a \<longrightarrow>
            (\<exists>ops'. self_projection_operators s' = Some ops' \<and> py_getitem ops' j = Inr (Some a)))"
proof -
  obtain rd s1 where d: "get_IRR_degeneracies Sage s = (rd, s1)" by force
  have k1: "caches_kept s s1" "same_derived s s1"
    using get_IRR_degeneracies_kept[OF d] get_IRR_degeneracies_frame[OF d] by simp_all
  have ok1: "heap_ok s1" using same_derived_heap_ok[OF k1(2) ok] .
  show ?thesis
  proof (cases rd)
    case (Inl e)
    then have "r = Inl e" "s' = s1" using run d by (simp_all add: get_projection_operator_def)
    then show ?thesis using k1 ok1 by (simp add: same_derived_def)
  next
    case (Inr degen)
    define ops where "ops = (case self_projection_operators s1 of
                        None \<Rightarrow> replicate (length degen) None | Some ops \<Rightarrow> ops)"
    define s2 where "s2 = s1\<lparr>self_projection_operators := Some ops\<rparr>"
    have run2: "(r, s') = (case py_getitem ops j of
                Inl e \<Rightarrow> (Inl e, s2)
              | Inr slot \<Rightarrow>
                  (case eq_None_test (heap s2) slot of
                     Inl e \<Rightarrow> (Inl e, s2)
                   | Inr True \<Rightarrow> compute_projection_operator Sage j s2
                   | Inr False \<Rightarrow>
                       (case slot of
                          None \<Rightarrow> (Inl TypeError, s2)
                        | Some a \<Rightarrow> (Inr a, s2))))"
      using run d Inr
      by (cases "self_projection_operators s1")
         (auto simp: get_projection_operator_def ops_def s2_def Let_def
            split: sum.splits option.splits bool.splits)
    have k2: "caches_kept s1 s2"
      by (auto simp: caches_kept_def s2_def ops_def slots_kept_refl split: option.splits)
    have ks2: "caches_kept s s2" using k1(1) k2 by (rule caches_kept_trans)
    have ok2: "heap_ok s2"
      using ok1 by (auto simp: heap_ok_def s2_def ops_def list_all_iff split: option.splits)
    have t2: "self_transformation_operator s2 = self_transformation_operator s"
      using k1(2) by (simp add: s2_def same_derived_def)
    have p2: "self_projection_operators s2 = Some ops" by (simp add: s2_def)
    show ?thesis
    proof (cases "py_getitem ops j")
      case (Inl e)
      then have "r = Inl e" "s' = s2" using run2 by simp_all
      then show ?thesis using ks2 ok2 t2 by simp
    next
      case slot: (Inr slot)
      show ?thesis
      proof (cases slot)
        case (Some a)
        then have "(r = Inl ValueError \<or> r = Inr a) \<and> s' = s2"
          using run2 slot by (auto simp: eq_None_test_def split: if_splits)
        then show ?thesis using ks2 ok2 t2 p2 slot Some by auto
      next
        case None
        then have c: "compute_projection_operator Sage j s2 = (r, s')"
          using run2 slot by (simp add: eq_None_test_def)
        have g: "py_getitem ops j = Inr None" using slot None by simp
        from compute_projection_operator_effect[OF c p2]
        show ?thesis
        proof
          assume "\<exists>e. r = Inl e \<and> same_derived s2 s' \<and> caches_kept s2 s'"
          then obtain e where e: "r = Inl e" "same_derived s2 s'" "caches_kept s2 s'" by blast
          show ?thesis
            using e caches_kept_trans[OF ks2 e(3)] same_derived_heap_ok[OF e(2) ok2] t2
            by (simp add: same_derived_def)
        next
          assume "\<exists>P s4. r = Inr (length (heap s2)) \<and> same_derived s2 s4 \<and> caches_kept s2 s4 \<and>
            s' = s4\<lparr>heap := heap s2 @ [P],
                    self_projection_operators :=
                      Some (py_setitem ops j (Some (length (heap s2))))\<rparr>"
          then obtain P s4 where s4: "r = Inr (length (heap s2))" "same_derived s2 s4"
              "caches_kept s2 s4"
              "s' = s4\<lparr>heap := heap s2 @ [P],
                    self_projection_operators :=
                      Some (py_setitem ops j (Some (length (heap s2))))\<rparr>"
            by blast
          have ok4: "heap_ok s4" using same_derived_heap_ok[OF s4(2) ok2] .
          have f4: "heap s4 = heap s2" "self_projection_operators s4 = Some ops"
              "self_transformation_operator s4 = self_transformation_operator s2"
            using s4(2) p2 by (simp_all add: same_derived_def)
          have k4: "caches_kept s4 s'"
            using f4 py_setitem_slots_kept[OF g]
            by (auto simp: caches_kept_def s4(4) split: option.splits)
          have all: "list_all (\<lambda>x. case x of None \<Rightarrow> True | Some a \<Rightarrow> a < length (heap s2)) ops"
            using ok2 p2 by (simp add: heap_ok_def)
          have all': "list_all (\<lambda>x. case x of None \<Rightarrow> True | Some a \<Rightarrow> a < Suc (length (heap s2)))
                       (py_setitem ops j (Some (length (heap s2))))"
            by (rule py_setitem_list_all[OF g heap_ok_weaken[OF all]]) simp_all
          have ok': "heap_ok s'"
            using ok4 f4 all' by (auto simp: heap_ok_def s4(4) split: option.splits)
          have "caches_kept s s'"
            using ks2 s4(3) k4 by (blast intro: caches_kept_trans)
          then show ?thesis
            using ok' s4(1) t2 f4 py_getitem_setitem[OF g] by (simp add: s4(4))
        qed
      qed
    qed
  qed
qed

subsection \<open>The transformation operator\<close>

lemma unit_rows_Cons:
  "unit_rows (w # ws) (row # rows) =
     (if \<bar>w - 1\<bar> < epsilon then row # unit_rows ws rows else unit_rows ws rows)"
  by (simp add: unit_rows_def)

lemma unit_rows_Nil: "unit_rows [] VH = []" "unit_rows W [] = []"
  by (simp_all add: unit_rows_def)

lemma svd_scan_rows:
  "svd_scan VH i W (R2, result) = Inr (R2', result') \<Longrightarrow>
     result' = result @ unit_rows W (drop i VH) \<and> R2' = R2 + length (unit_rows W (drop i VH))"
proof (induction W arbitrary: i R2 result)
  case Nil
  then show ?case by (simp add: unit_rows_Nil)
next
  case (Cons w ws)
  show ?case
  proof (cases "i < length VH")
    case True
    then have d: "drop i VH = VH ! i # drop (Suc i) VH" by (simp add: Cons_nth_drop_Suc)
    show ?thesis
    proof (cases "\<bar>w - 1\<bar> < epsilon")
      case near: True
      then have "svd_scan VH (Suc i) ws (R2 + 1, result @ [VH ! i]) = Inr (R2', result')"
        using Cons.prems True by (simp add: nth_chk_def)
      from Cons.IH[OF this] show ?thesis using near d by (simp add: unit_rows_Cons)
    next
      case far: False
      then have "svd_scan VH (Suc i) ws (R2, result) = Inr (R2', result')"
        using Cons.prems by simp
      from Cons.IH[OF this] show ?thesis using far d by (simp add: unit_rows_Cons)
    qed
  next
    case False
    then have d: "drop i VH = []" "drop (Suc i) VH = []" by simp_all
    have far: "\<not> \<bar>w - 1\<bar> < epsilon"
      using Cons.prems False by (auto simp: nth_chk_def split: if_splits)
    then have "svd_scan VH (Suc i) ws (R2, result) = Inr (R2', result')"
      using Cons.prems by simp
    from Cons.IH[OF this] show ?thesis using d by (simp add: unit_rows_Nil)
  qed
qed

text \<open>One turn of the loop of \<open>get_transformation_operator\<close>.\<close>

lemma transformation_loop_turn:
  assumes "transformation_loop Sage svd degens (j # js) result s = (r, s')"
  shows "\<exists>r1 s1. get_character_table Sage s = (r1, s1) \<and>
     ((\<exists>e. r = Inl e \<and> s' = s1) \<or>
      (\<exists>tbl. r1 = Inr tbl \<and> j < length tbl \<and> degens ! j = 0 \<and>
          transformation_loop Sage svd degens js result s1 = (r, s')) \<or>
      (\<exists>tbl r2 s2. r1 = Inr tbl \<and> j < length tbl \<and> degens ! j \<noteq> 0 \<and>
          get_projection_operator Sage (int j) s1 = (r2, s2) \<and>
          ((\<exists>e. r = Inl e \<and> s' = s2) \<or>
           (\<exists>a U W VH d. r2 = Inr a \<and> svd (heap s2 ! a) = Inr (U, W, VH) \<and>
               py_int (tbl ! j ! 0) = Inr d \<and>
               d * (degens ! j) = int (length (unit_rows W VH)) \<and>
               transformation_loop Sage svd degens js (result @ unit_rows W VH) s2 = (r, s')))))"
proof -
  obtain r1 s1 where 1: "get_character_table Sage s = (r1, s1)" by force
  obtain r2 s2 where 2: "get_projection_operator Sage (int j) s1 = (r2, s2)" by force
  have idx: "py_getitem tbl (int j) = Inr row \<Longrightarrow> j < length tbl \<and> row = tbl ! j" for tbl row
    by (auto simp: py_getitem_def split: if_splits)
  have idx0: "py_getitem row 0 = Inr x \<Longrightarrow> x = row ! 0" for row x
    by (auto simp: py_getitem_def split: if_splits)
  have scan: "svd_scan VH 0 W (0, result) = Inr (R2, result') \<Longrightarrow>
      result' = result @ unit_rows W VH \<and> R2 = length (unit_rows W VH)" for VH W R2 result'
    using svd_scan_rows[of VH 0 W 0 result R2 result'] by simp
  show ?thesis
    using assms 1 2
    by (auto simp: split: sum.splits prod.splits if_splits dest!: idx idx0 scan)
qed

lemma transformation_loop_effect:
  assumes "transformation_loop Sage svd degens js result s = (r, s')" and "heap_ok s"
  shows "caches_kept s s' \<and> heap_ok s' \<and>
         self_transformation_operator s' = self_transformation_operator s"
  using assms
proof (induction js arbitrary: result s)
  case Nil
  then show ?case by (simp add: caches_kept_refl)
next
  case (Cons j js)
  from transformation_loop_turn[OF Cons.prems(1)]
  obtain r1 s1 where 1: "get_character_table Sage s = (r1, s1)"
    and alt: "(\<exists>e. r = Inl e \<and> s' = s1) \<or>
      (\<exists>tbl. r1 = Inr tbl \<and> j < length tbl \<and> degens ! j = 0 \<and>
          transformation_loop Sage svd degens js result s1 = (r, s')) \<or>
      (\<exists>tbl r2 s2. r1 = Inr tbl \<and> j < length tbl \<and> degens ! j \<noteq> 0 \<and>
          get_projection_operator Sage (int j) s1 = (r2, s2) \<and>
          ((\<exists>e. r = Inl e \<and> s' = s2) \<or>
           (\<exists>a U W VH d. r2 = Inr a \<and> svd (heap s2 ! a) = Inr (U, W, VH) \<and>
               py_int (tbl ! j ! 0) = Inr d \<and>
               d * (degens ! j) = int (length (unit_rows W VH)) \<and>
               transformation_loop Sage svd degens js (result @ unit_rows W VH) s2 = (r, s'))))"
    by (elim exE conjE) (rule that)
  have k1: "caches_kept s s1" "same_derived s s1" using get_character_table_kept[OF 1] .
  have ok1: "heap_ok s1" using same_derived_heap_ok[OF k1(2) Cons.prems(2)] .
  have t1: "self_transformation_operator s1 = self_transformation_operator s"
    using k1(2) by (simp add: same_derived_def)
  from alt show ?case
  proof (elim disjE exE conjE)
    fix e assume "r = Inl e" "s' = s1"
    then show ?thesis using k1 ok1 t1 by simp
  next
    fix tbl assume "transformation_loop Sage svd degens js result s1 = (r, s')"
    from Cons.IH[OF this ok1]
    have "caches_kept s1 s'" "heap_ok s'"
        "self_transformation_operator s' = self_transformation_operator s1"
      by simp_all
    then show ?thesis using caches_kept_trans[OF k1(1)] t1 by simp
  next
    fix tbl r2 s2 e
    assume 2: "get_projection_operator Sage (int j) s1 = (r2, s2)" and "r = Inl e" "s' = s2"
    with get_projection_operator_effect[OF 2 ok1]
    have "caches_kept s1 s'" "heap_ok s'"
        "self_transformation_operator s' = self_transformation_operator s1"
      by simp_all
    then show ?thesis using caches_kept_trans[OF k1(1)] t1 by simp
  next
    fix tbl r2 s2 a U W VH d
    assume 2: "get_projection_operator Sage (int j) s1 = (r2, s2)"
      and l: "transformation_loop Sage svd degens js (result @ unit_rows W VH) s2 = (r, s')"
    from get_projection_operator_effect[OF 2 ok1]
    have e2: "caches_kept s1 s2" "heap_ok s2"
        "self_transformation_operator s2 = self_transformation_operator s1"
      by simp_all
    from Cons.IH[OF l e2(2)]
    have "caches_kept s2 s'" "heap_ok s'"
        "self_transformation_operator s' = self_transformation_operator s2"
      by simp_all
    then show ?thesis
      using caches_kept_trans[OF k1(1) caches_kept_trans[OF e2(1)]] t1 e2(3) by simp
  qed
qed

lemma cached_projector_kept:
  assumes "self_projection_operators s = Some ops" "j < length ops" "ops ! j = Some a"
    and "heap_ok s" "caches_kept s s'"
  shows "cached_projector s' j = heap s ! a"
proof -
  obtain ops' where o: "self_projection_operators s' = Some ops'" "slots_kept ops ops'"
    using assms(1,5) by (auto simp: caches_kept_def split: option.splits)
  then have s: "ops' ! j = Some a" using assms(2,3) by (simp add: slots_kept_iff)
  have "a < length (heap s)"
    using assms(1,2,3,4) by (auto simp: heap_ok_def list_all_length split: option.splits)
  moreover have "take (length (heap s)) (heap s') = heap s"
    using assms(5) by (simp add: caches_kept_def)
  ultimately have "heap s' ! a = heap s ! a" using nth_take[of a "length (heap s)" "heap s'"] by simp
  then show ?thesis using o s by (simp add: cached_projector_def)
qed

lemma transformation_loop_rows:
  assumes "transformation_loop Sage svd degens js result s = (Inr result', s')" and "heap_ok s"
  shows "result' = result @ spec_transformation svd degens (cached_projector s') js \<and>
         (\<forall>j \<in> set js. degens ! j \<noteq> 0 \<longrightarrow>
            rank_consistent svd s' degens j \<and>
            (\<exists>ops a. self_projection_operators s' = Some ops \<and> j < length ops \<and>
               ops ! j = Some a))"
  using assms
proof (induction js arbitrary: result s)
  case Nil
  then show ?case by (simp add: spec_transformation_def)
next
  case (Cons j js)
  from transformation_loop_turn[OF Cons.prems(1)]
  obtain r1 s1 where 1: "get_character_table Sage s = (r1, s1)"
    and alt: "(\<exists>e. (Inr result' :: py_error + complex list list) = Inl e \<and> s' = s1) \<or>
      (\<exists>tbl. r1 = Inr tbl \<and> j < length tbl \<and> degens ! j = 0 \<and>
          transformation_loop Sage svd degens js result s1 = (Inr result', s')) \<or>
      (\<exists>tbl r2 s2. r1 = Inr tbl \<and> j < length tbl \<and> degens ! j \<noteq> 0 \<and>
          get_projection_operator Sage (int j) s1 = (r2, s2) \<and>
          ((\<exists>e. (Inr result' :: py_error + complex list list) = Inl e \<and> s' = s2) \<or>
           (\<exists>a U W VH d. r2 = Inr a \<and> svd (heap s2 ! a) = Inr (U, W, VH) \<and>
               py_int (tbl ! j ! 0) = Inr d \<and>
               d * (degens ! j) = int (length (unit_rows W VH)) \<and>
               transformation_loop Sage svd degens js (result @ unit_rows W VH) s2
                 = (Inr result', s'))))"
    by (elim exE conjE) (rule that)
  have k1: "caches_kept s s1" "same_derived s s1" using get_character_table_kept[OF 1] .
  have ok1: "heap_ok s1" using same_derived_heap_ok[OF k1(2) Cons.prems(2)] .
  from alt show ?case
  proof (elim disjE exE conjE)
    fix e assume "(Inr result' :: py_error + complex list list) = Inl e"
    then show ?thesis by simp
  next
    fix tbl r2 s2 e assume "(Inr result' :: py_error + complex list list) = Inl e"
    then show ?thesis by simp
  next
    fix tbl
    assume z: "degens ! j = 0"
      and l: "transformation_loop Sage svd degens js result s1 = (Inr result', s')"
    from Cons.IH[OF l ok1] z show ?thesis by (simp add: spec_transformation_def)
  next
    fix tbl r2 s2 a U W VH d
    assume r1: "r1 = Inr tbl" and j: "j < length tbl" and nz: "degens ! j \<noteq> 0"
      and 2: "get_projection_operator Sage (int j) s1 = (r2, s2)" and r2: "r2 = Inr a"
      and sv: "svd (heap s2 ! a) = Inr (U, W, VH)"
      and d: "py_int (tbl ! j ! 0) = Inr d"
      and rk: "d * (degens ! j) = int (length (unit_rows W VH))"
      and l: "transformation_loop Sage svd degens js (result @ unit_rows W VH) s2
                 = (Inr result', s')"
    from get_projection_operator_effect[OF 2 ok1] r2
    obtain ops2 where e2: "caches_kept s1 s2" "heap_ok s2"
        "self_projection_operators s2 = Some ops2" "py_getitem ops2 (int j) = Inr (Some a)"
      by auto
    have slot: "j < length ops2" "ops2 ! j = Some a"
      using e2(4) by (auto simp: py_getitem_def split: if_splits)
    from transformation_loop_effect[OF l e2(2)] have k': "caches_kept s2 s'" by simp
    have P: "cached_projector s' j = heap s2 ! a"
      using cached_projector_kept[OF e2(3) slot e2(2) k'] .
    have rows: "svd_rows svd (cached_projector s' j) = unit_rows W VH"
      using P sv by (simp add: svd_rows_def)
    have "self_character_table s1 = Some tbl"
      using get_character_table_result 1 r1 by blast
    then have "self_character_table s' = Some tbl"
      using caches_kept_trans[OF e2(1) k'] by (simp add: caches_kept_def)
    then have rc: "rank_consistent svd s' degens j"
      using d rk rows by (simp add: rank_consistent_def)
    have "\<exists>ops'. self_projection_operators s' = Some ops' \<and> slots_kept ops2 ops'"
      using k' e2(3) by (auto simp: caches_kept_def split: option.splits)
    then have sl: "\<exists>ops a. self_projection_operators s' = Some ops \<and> j < length ops \<and>
               ops ! j = Some a"
      using slot by (auto simp: slots_kept_iff)
    from Cons.IH[OF l e2(2)] show ?thesis
      using nz rows rc sl by (simp add: spec_transformation_def)
  qed
qed


lemma spec_transformation_cong:
  assumes "\<And>j. j \<in> set js \<Longrightarrow> degens ! j \<noteq> 0 \<Longrightarrow> P j = Q j"
  shows "spec_transformation svd degens P js = spec_transformation svd degens Q js"
proof -
  have "map (\<lambda>j. if degens ! j = 0 then [] else svd_rows svd (P j)) js =
        map (\<lambda>j. if degens ! j = 0 then [] else svd_rows svd (Q j)) js"
    using assms by (intro map_cong) auto
  then show ?thesis unfolding spec_transformation_def by (rule arg_cong[where f = concat])
qed

lemma caches_kept_intact:
  assumes "caches_kept s s'" "heap_ok s"
  shows "projectors_intact s s'"
proof (cases "self_projection_operators s")
  case None
  then show ?thesis by (simp add: projectors_intact_def)
next
  case (Some ops)
  have "ops ! j = None \<or> cached_projector s' j = cached_projector s j" if "j < length ops" for j
  proof (cases "ops ! j")
    case None
    then show ?thesis by simp
  next
    case (Some a)
    have "cached_projector s' j = heap s ! a"
      using cached_projector_kept[OF \<open>self_projection_operators s = Some ops\<close> that Some assms(2,1)] .
    moreover have "cached_projector s j = heap s ! a"
      using \<open>self_projection_operators s = Some ops\<close> Some by (simp add: cached_projector_def)
    ultimately show ?thesis by simp
  qed
  then show ?thesis using Some by (simp add: projectors_intact_def list_all_iff)
qed

text \<open>The run of \<open>get_transformation_operator\<close> when nothing is cached yet.\<close>

lemma get_transformation_operator_run:
  assumes "self_transformation_operator s = None"
    and "get_transformation_operator Sage svd s = (r, s')"
  shows "\<exists>rd s1. get_IRR_degeneracies Sage s = (rd, s1) \<and>
           ((\<exists>e. rd = Inl e \<and> r = Inl e \<and> s' = s1) \<or>
            (\<exists>degens rl s2. rd = Inr degens \<and>
               transformation_loop Sage svd degens [0 ..< length degens] [] s1 = (rl, s2) \<and>
               ((\<exists>e. rl = Inl e \<and> r = Inl e \<and> s' = s2) \<or>
                (\<exists>result. rl = Inr result \<and> r = Inr (Suc (length (heap s2))) \<and>
                   s' = s2\<lparr>heap := heap s2 @ [result, result],
                           self_transformation_operator := Some (length (heap s2))\<rparr>))))"
proof -
  obtain rd s1 where 1: "get_IRR_degeneracies Sage s = (rd, s1)" by force
  show ?thesis
  proof (cases rd)
    case (Inl e)
    then show ?thesis using assms 1
      by (simp add: get_transformation_operator_def eq_None_test_def)
  next
    case (Inr degens)
    obtain rl s2 where 2:
        "transformation_loop Sage svd degens [0 ..< length degens] [] s1 = (rl, s2)"
      by force
    show ?thesis
    proof (cases rl)
      case (Inl e)
      then show ?thesis using assms 1 2 Inr
        by (simp add: get_transformation_operator_def eq_None_test_def)
    next
      case res: (Inr result)
      then show ?thesis using assms 1 2 Inr
        by (auto simp: get_transformation_operator_def eq_None_test_def
            return_transformation_copy_def nth_append)
    qed
  qed
qed

lemma cached_projector_later:
  assumes "self_projection_operators s = Some ops" "j < length ops" "heap_ok s"
  shows "cached_projector (s\<lparr>heap := heap s @ ext, self_transformation_operator := t\<rparr>) j =
           cached_projector s j"
proof (cases "ops ! j")
  case None
  then show ?thesis using assms(1) by (simp add: cached_projector_def)
next
  case (Some a)
  have "a < length (heap s)"
    using assms Some by (auto simp: heap_ok_def list_all_length split: option.splits)
  then show ?thesis using assms(1) Some by (simp add: cached_projector_def nth_append)
qed

text \<open>
  What a successful first call of \<open>get_transformation_operator\<close> has done: the loop has
  gone through the IRRs and returned \<open>result\<close>, the state is the loop's final state \<open>s2\<close>
  but for the new transformation operator and its copy.
\<close>

lemma get_transformation_operator_success:
  assumes N: "self_transformation_operator s = None" and ok: "heap_ok s"
    and run: "get_transformation_operator Sage svd s = (Inr a, s')"
  shows "\<exists>degens s2 result.
           self_IRR_degeneracies s' = Some degens \<and>
           self_character_table s' = self_character_table s2 \<and>
           a = Suc (length (heap s2)) \<and>
           s' = s2\<lparr>heap := heap s2 @ [result, result],
                   self_transformation_operator := Some (length (heap s2))\<rparr> \<and>
           result = spec_transformation svd degens (cached_projector s') [0 ..< length degens] \<and>
           (\<forall>j < length degens. degens ! j \<noteq> 0 \<longrightarrow> rank_consistent svd s' degens j)"
proof -
  from get_transformation_operator_run[OF N run]
  obtain s1 degens s2 result where
      1: "get_IRR_degeneracies Sage s = (Inr degens, s1)"
    and 2: "transformation_loop Sage svd degens [0 ..< length degens] [] s1 = (Inr result, s2)"
    and a: "a = Suc (length (heap s2))"
    and s': "s' = s2\<lparr>heap := heap s2 @ [result, result],
                           self_transformation_operator := Some (length (heap s2))\<rparr>"
    by (elim exE conjE disjE) simp_all
  have ok1: "heap_ok s1"
    using same_derived_heap_ok[OF get_IRR_degeneracies_frame[OF 1] ok] .
  from transformation_loop_effect[OF 2 ok1]
  have k2: "caches_kept s1 s2" and ok2: "heap_ok s2" by simp_all
  have "self_IRR_degeneracies s1 = Some degens" using get_IRR_degeneracies_result[OF 1] .
  then have d2: "self_IRR_degeneracies s2 = Some degens"
    using k2 by (simp add: caches_kept_def)
  from transformation_loop_rows[OF 2 ok1]
  have rows: "result = spec_transformation svd degens (cached_projector s2) [0 ..< length degens]"
    and rk: "\<And>j. j < length degens \<Longrightarrow> degens ! j \<noteq> 0 \<Longrightarrow>
            rank_consistent svd s2 degens j \<and>
            (\<exists>ops a. self_projection_operators s2 = Some ops \<and> j < length ops \<and>
               ops ! j = Some a)"
    by simp_all
  have P: "cached_projector s' j = cached_projector s2 j"
    if "j < length degens" "degens ! j \<noteq> 0" for j
  proof -
    from rk[OF that] obtain ops where "self_projection_operators s2 = Some ops" "j < length ops"
      by blast
    then show ?thesis unfolding s' by (rule cached_projector_later[OF _ _ ok2])
  qed
  have "spec_transformation svd degens (cached_projector s') [0 ..< length degens] =
        spec_transformation svd degens (cached_projector s2) [0 ..< length degens]"
    by (rule spec_transformation_cong) (simp add: P)
  then have rows': "result =
      spec_transformation svd degens (cached_projector s') [0 ..< length degens]"
    using rows by simp
  have rc: "rank_consistent svd s' degens j" if "j < length degens" "degens ! j \<noteq> 0" for j
  proof -
    have "rank_consistent svd s2 degens j" using rk[OF that] by simp
    moreover have "self_character_table s' = self_character_table s2" by (simp add: s')
    ultimately show ?thesis using P[OF that]
      by (auto simp: rank_consistent_def split: option.splits sum.splits)
  qed
  have d': "self_IRR_degeneracies s' = Some degens" using d2 by (simp add: s')
  have t': "self_character_table s' = self_character_table s2" by (simp add: s')
  show ?thesis
    using d' t' a s' rows' rc by blast
qed

text \<open>
  C4. On a first call of \<open>get_transformation_operator\<close>, a matrix is returned only if for
  every IRR of nonzero degeneracy the number \<open>R2\<close> of collected singular vectors equals
  \<open>R1 = dimension \<sqdot> degeneracy\<close>: when they differ for some IRR the call ends in an error.
  Whenever the call ends in an error, the transformation operator stays unset, and the
  degeneracies and the projection operators cached before are still cached, unchanged.
\<close>

theorem get_transformation_operator_rank_check:
  assumes "self_transformation_operator s = None" and "heap_ok s"
  shows "(\<forall>a s'. get_transformation_operator Sage svd s = (Inr a, s') \<longrightarrow>
            (\<exists>degens. self_IRR_degeneracies s' = Some degens \<and>
               (\<forall>j < length degens. degens ! j \<noteq> 0 \<longrightarrow> rank_consistent svd s' degens j))) \<and>
         (\<forall>e s'. get_transformation_operator Sage svd s = (Inl e, s') \<longrightarrow>
            self_transformation_operator s' = None \<and> caches_kept s s' \<and>
            projectors_intact s s')"
proof -
  have A: "\<exists>degens. self_IRR_degeneracies s' = Some degens \<and>
               (\<forall>j < length degens. degens ! j \<noteq> 0 \<longrightarrow> rank_consistent svd s' degens j)"
    if "get_transformation_operator Sage svd s = (Inr a, s')" for a s'
  proof -
    from get_transformation_operator_success[OF assms that]
    obtain degens where "self_IRR_degeneracies s' = Some degens"
        "\<forall>j < length degens. degens ! j \<noteq> 0 \<longrightarrow> rank_consistent svd s' degens j"
      by (elim exE conjE) (rule that)
    then show ?thesis by (intro exI[of _ degens] conjI)
  qed
  have B: "self_transformation_operator s' = None \<and> caches_kept s s' \<and> projectors_intact s s'"
    if run: "get_transformation_operator Sage svd s = (Inl e, s')" for e s'
  proof -
    from get_transformation_operator_run[OF assms(1) run]
    obtain rd s1 where 1: "get_IRR_degeneracies Sage s = (rd, s1)"
      and alt: "s' = s1 \<or> (\<exists>degens rl s2.
                 transformation_loop Sage svd degens [0 ..< length degens] [] s1 = (rl, s2) \<and>
                 s' = s2)"
      by (elim exE conjE disjE) (simp_all, blast)
    have k1: "caches_kept s s1" using get_IRR_degeneracies_kept[OF 1] .
    have f1: "same_derived s s1" using get_IRR_degeneracies_frame[OF 1] .
    have ok1: "heap_ok s1" using same_derived_heap_ok[OF f1 assms(2)] .
    have t1: "self_transformation_operator s1 = None"
      using f1 assms(1) by (simp add: same_derived_def)
    have c: "self_transformation_operator s' = None \<and> caches_kept s s'"
      using alt
    proof
      assume "s' = s1"
      then show ?thesis using k1 t1 by simp
    next
      assume "\<exists>degens rl s2.
                 transformation_loop Sage svd degens [0 ..< length degens] [] s1 = (rl, s2) \<and>
                 s' = s2"
      then obtain degens rl where
          "transformation_loop Sage svd degens [0 ..< length degens] [] s1 = (rl, s')"
        by (elim exE conjE) simp
      from transformation_loop_effect[OF this ok1]
      show ?thesis using caches_kept_trans[OF k1] t1 by simp
    qed
    then have "projectors_intact s s'" using caches_kept_intact[OF _ assms(2)] by simp
    with c show ?thesis by simp
  qed
  show ?thesis
  proof (intro conjI allI impI)
    fix a s' assume "get_transformation_operator Sage svd s = (Inr a, s')"
    then show "\<exists>degens. self_IRR_degeneracies s' = Some degens \<and>
               (\<forall>j < length degens. degens ! j \<noteq> 0 \<longrightarrow> rank_consistent svd s' degens j)"
      by (rule A)
  next
    fix e s' assume "get_transformation_operator Sage svd s = (Inl e, s')"
    from B[OF this] show "self_transformation_operator s' = None" by simp
  next
    fix e s' assume "get_transformation_operator Sage svd s = (Inl e, s')"
    from B[OF this] show "caches_kept s s'" by simp
  next
    fix e s' assume "get_transformation_operator Sage svd s = (Inl e, s')"
    from B[OF this] show "projectors_intact s s'" by simp
  qed
qed

subsection \<open>The transformation operator: instances\<close>

text \<open>
  On the single-node network with its projection operator already cached: an SVD that
  finds no singular value near 1 makes the call raise, and the degeneracies and the
  projection operator cached before are still there; with the true SVD the call returns.
\<close>

theorem get_transformation_operator_rank_check_witness:
  "self_transformation_operator (snd (get_projection_operator N1_sage 0 N1)) = None \<and>
   heap_ok (snd (get_projection_operator N1_sage 0 N1)) \<and>
   self_IRR_degeneracies (snd (get_projection_operator N1_sage 0 N1)) = Some [1] \<and>
   self_projection_operators (snd (get_projection_operator N1_sage 0 N1)) = Some [Some 1] \<and>
   fst (get_transformation_operator N1_sage N1_svd_off
          (snd (get_projection_operator N1_sage 0 N1))) = Inl Exception \<and>
   self_transformation_operator
     (snd (get_transformation_operator N1_sage N1_svd_off
             (snd (get_projection_operator N1_sage 0 N1)))) = None \<and>
   caches_kept (snd (get_projection_operator N1_sage 0 N1))
     (snd (get_transformation_operator N1_sage N1_svd_off
             (snd (get_projection_operator N1_sage 0 N1)))) \<and>
   projectors_intact (snd (get_projection_operator N1_sage 0 N1))
     (snd (get_transformation_operator N1_sage N1_svd_off
             (snd (get_projection_operator N1_sage 0 N1)))) \<and>
   fst (get_transformation_operator N1_sage N1_svd
          (snd (get_projection_operator N1_sage 0 N1))) = Inr 3 \<and>
   (\<exists>degens.
      self_IRR_degeneracies
        (snd (get_transformation_operator N1_sage N1_svd
                (snd (get_projection_operator N1_sage 0 N1)))) = Some degens \<and>
      (\<forall>j < length degens. degens ! j \<noteq> 0 \<longrightarrow>
         rank_consistent N1_svd
           (snd (get_transformation_operator N1_sage N1_svd
                   (snd (get_projection_operator N1_sage 0 N1)))) degens j))"
proof -
  let ?s = "snd (get_projection_operator N1_sage 0 N1)"
  have h: "self_transformation_operator ?s = None" "heap_ok ?s"
    by (simp_all add: heap_ok_def network_defs model_defs)
  have c: "self_IRR_degeneracies ?s = Some [1]" "self_projection_operators ?s = Some [Some 1]"
    by (simp_all add: network_defs model_defs)
  have v: "fst (get_transformation_operator N1_sage N1_svd_off ?s) = Inl Exception"
      "fst (get_transformation_operator N1_sage N1_svd ?s) = Inr 3"
    by (simp_all add: network_defs model_defs)
  have run_off: "get_transformation_operator N1_sage N1_svd_off ?s =
      (Inl Exception, snd (get_transformation_operator N1_sage N1_svd_off ?s))"
    using v(1) by (simp add: prod_eq_iff)
  have run_on: "get_transformation_operator N1_sage N1_svd ?s =
      (Inr 3, snd (get_transformation_operator N1_sage N1_svd ?s))"
    using v(2) by (simp add: prod_eq_iff)
  from get_transformation_operator_rank_check[OF h, of N1_sage N1_svd_off] run_off
  have off: "self_transformation_operator
               (snd (get_transformation_operator N1_sage N1_svd_off ?s)) = None"
      "caches_kept ?s (snd (get_transformation_operator N1_sage N1_svd_off ?s))"
      "projectors_intact ?s (snd (get_transformation_operator N1_sage N1_svd_off ?s))"
    by blast+
  from get_transformation_operator_rank_check[OF h, of N1_sage N1_svd] run_on
  have on: "\<exists>degens.
      self_IRR_degeneracies (snd (get_transformation_operator N1_sage N1_svd ?s)) = Some degens \<and>
      (\<forall>j < length degens. degens ! j \<noteq> 0 \<longrightarrow>
         rank_consistent N1_svd (snd (get_transformation_operator N1_sage N1_svd ?s)) degens j)"
    by blast
  show ?thesis
    using h c v off on by (intro conjI)
qed

subsection \<open>The transformation operator from the Oracle's data\<close>













lemma K2_spec_degeneracy: "spec_degeneracy K2_group 0 = 1" "spec_degeneracy K2_group (Suc 0) = 1"
  by (simp_all add: spec_degeneracy_def K2_group_def lessThan_Suc eval_nat_numeral np_trace_def
      py_round_def upt_rec)

lemma K2_spec_projection:
  "spec_projection K2_group 2 0 = [[1 / 2, 1 / 2], [1 / 2, 1 / 2]]"
  "spec_projection K2_group 2 (Suc 0) = [[1 / 2, - (1 / 2)], [- (1 / 2), 1 / 2]]"
  by (simp_all add: spec_projection_def spec_projection_entry_def K2_group_def lessThan_Suc
      eval_nat_numeral upt_rec)



subsection \<open>Requests for a cached projection operator\<close>

text \<open>
  C2 on the complete graph on 2 nodes. The first \<open>get_projection_operator(1)\<close> returns the
  matrix of the formula, \<open>[[1/2, -1/2], [-1/2, 1/2]]\<close>, and leaves a coherent state. The
  same request on that state does not return the matrix: the cache test \<open>== None\<close> meets
  the cached 2-by-2 array and raises ValueError.
\<close>

theorem get_projection_operator_repeated_request:
  "fst (get_projection_operator K2_sage 1 K2) = Inr 1 \<and>
   heap (snd (get_projection_operator K2_sage 1 K2)) ! 1 = spec_projection K2_group 2 1 \<and>
   spec_projection K2_group 2 1 = [[1 / 2, - (1 / 2)], [- (1 / 2), 1 / 2]] \<and>
   cache_coherent K2_sage K2_group (snd (get_projection_operator K2_sage 1 K2)) \<and>
   projectors_coherent K2_group (snd (get_projection_operator K2_sage 1 K2)) \<and>
   fst (get_projection_operator K2_sage 1 (snd (get_projection_operator K2_sage 1 K2)))
     = Inl ValueError"
proof -
  have p: "spec_projection K2_group 2 1 = [[1 / 2, - (1 / 2)], [- (1 / 2), 1 / 2]]"
    using K2_spec_projection(2) by simp
  have d: "spec_degeneracies K2_group = [1, 1]"
    using K2_spec_degeneracy by (simp add: spec_degeneracies_def K2_group_def upt_rec)
  have s: "self_projection_operators (snd (get_projection_operator K2_sage 1 K2))
             = Some [None, Some 1]"
      "self_nnodes (snd (get_projection_operator K2_sage 1 K2)) = 2"
      "heap (snd (get_projection_operator K2_sage 1 K2)) ! 1
         = [[1 / 2, - (1 / 2)], [- (1 / 2), 1 / 2]]"
    by (simp_all add: network_defs model_defs)
  have c: "cache_coherent K2_sage K2_group (snd (get_projection_operator K2_sage 1 K2))"
    unfolding cache_coherent_def oracle_loaded_def d
    by (simp add: network_defs model_defs)
  have pc: "projectors_coherent K2_group (snd (get_projection_operator K2_sage 1 K2))"
    using s K2_spec_projection by (simp add: projectors_coherent_def upt_rec)
  have v: "fst (get_projection_operator K2_sage 1 K2) = Inr 1"
      "fst (get_projection_operator K2_sage 1 (snd (get_projection_operator K2_sage 1 K2)))
         = Inl ValueError"
    by (simp_all add: network_defs model_defs)
  show ?thesis using p s(3) c pc v by simp
qed

text \<open>
  C10 on the complete graph on 2 nodes. The first \<open>get_projection_operator(-1)\<close> is served:
  it returns the projection operator of IRR \<open>2 + (-1) = 1\<close> and caches it in slot 1. The
  same request on that state fails: the cache test \<open>== None\<close> meets the cached 2-by-2
  array and raises ValueError.
\<close>

theorem get_projection_operator_negative_index_repeated:
  "fst (get_projection_operator K2_sage (- 1) K2) = Inr 1 \<and>
   heap (snd (get_projection_operator K2_sage (- 1) K2)) ! 1 = spec_projection K2_group 2 1 \<and>
   self_projection_operators (snd (get_projection_operator K2_sage (- 1) K2))
     = Some [None, Some 1] \<and>
   fst (get_projection_operator K2_sage (- 1)
          (snd (get_projection_operator K2_sage (- 1) K2))) = Inl ValueError"
proof -
  have p: "spec_projection K2_group 2 1 = [[1 / 2, - (1 / 2)], [- (1 / 2), 1 / 2]]"
    using K2_spec_projection(2) by simp
  have v: "fst (get_projection_operator K2_sage (- 1) K2) = Inr 1"
      "heap (snd (get_projection_operator K2_sage (- 1) K2)) ! 1
         = [[1 / 2, - (1 / 2)], [- (1 / 2), 1 / 2]]"
      "self_projection_operators (snd (get_projection_operator K2_sage (- 1) K2))
         = Some [None, Some 1]"
      "fst (get_projection_operator K2_sage (- 1)
          (snd (get_projection_operator K2_sage (- 1) K2))) = Inl ValueError"
    by (simp_all add: network_defs model_defs)
  show ?thesis using p v by simp
qed

subsection \<open>The state after construction\<close>

text \<open>
  A newly constructed object, for whose adjacency matrix the Oracle answers \<open>G\<close>, is in a
  state of the kind the theorems above speak of.
\<close>

lemma constructed_state:
  assumes "init (Some m) h = (r, s)" and "map_sum id fst (Sage (Some m)) = Inr G"
  shows "cache_coherent Sage G s \<and> projectors_coherent G s \<and> heap_ok s \<and>
         self_transformation_operator s = None \<and> self_projection_operators s = None \<and>
         self_nnodes s = length m"
  using assms
  by (auto simp: init_def set_adjacency_matrix_def reset_data_def blank_def cache_coherent_def
      oracle_loaded_def projectors_coherent_def heap_ok_def adjmat_value_def)

end
